theory Spec2Isabelle
  imports Main "HOL-Library.AList"
begin

section \<open>Strings as the program uses them\<close>

text \<open>
  Python strings are sequences of code points; the model works with the code points
  below 256, one \<^typ>\<open>char\<close> each. The character classes below are the ones of
  \<^verbatim>\<open>str.isspace\<close>, \<^verbatim>\<open>str.isdigit\<close>, \<^verbatim>\<open>str.lower\<close> and of the regular
  expression classes \<^verbatim>\<open>\s\<close>, \<^verbatim>\<open>\d\<close> and \<^verbatim>\<open>[a-zA-Z0-9_]\<close> on that range.
\<close>

definition is_space :: "char \<Rightarrow> bool" where
  "is_space c = ((of_char c :: nat) \<in> {9, 10, 11, 12, 13, 28, 29, 30, 31, 32, 133, 160})"

definition is_decimal :: "char \<Rightarrow> bool" where
  "is_decimal c = (c \<in> set ''0123456789'')"

definition is_digit :: "char \<Rightarrow> bool" where
  "is_digit c = (is_decimal c \<or> c \<in> set [CHR 0xB2, CHR 0xB3, CHR 0xB9])"

definition is_word :: "char \<Rightarrow> bool" where
  "is_word c = (c \<in> set ''abcdefghijklmnopqrstuvwxyzABCDEFGHIJKLMNOPQRSTUVWXYZ0123456789_'')"

definition case_table :: "(char \<times> char) list" where
  "case_table = zip
     (''ABCDEFGHIJKLMNOPQRSTUVWXYZ'' @
      [CHR 0xC0, CHR 0xC1, CHR 0xC2, CHR 0xC3, CHR 0xC4, CHR 0xC5, CHR 0xC6, CHR 0xC7,
       CHR 0xC8, CHR 0xC9, CHR 0xCA, CHR 0xCB, CHR 0xCC, CHR 0xCD, CHR 0xCE, CHR 0xCF,
       CHR 0xD0, CHR 0xD1, CHR 0xD2, CHR 0xD3, CHR 0xD4, CHR 0xD5, CHR 0xD6,
       CHR 0xD8, CHR 0xD9, CHR 0xDA, CHR 0xDB, CHR 0xDC, CHR 0xDD, CHR 0xDE])
     (''abcdefghijklmnopqrstuvwxyz'' @
      [CHR 0xE0, CHR 0xE1, CHR 0xE2, CHR 0xE3, CHR 0xE4, CHR 0xE5, CHR 0xE6, CHR 0xE7,
       CHR 0xE8, CHR 0xE9, CHR 0xEA, CHR 0xEB, CHR 0xEC, CHR 0xED, CHR 0xEE, CHR 0xEF,
       CHR 0xF0, CHR 0xF1, CHR 0xF2, CHR 0xF3, CHR 0xF4, CHR 0xF5, CHR 0xF6,
       CHR 0xF8, CHR 0xF9, CHR 0xFA, CHR 0xFB, CHR 0xFC, CHR 0xFD, CHR 0xFE])"

definition lower_char :: "char \<Rightarrow> char" where
  "lower_char c = (case map_of case_table c of Some d \<Rightarrow> d | None \<Rightarrow> c)"

definition lower :: "string \<Rightarrow> string" where
  "lower s = map lower_char s"

definition strip :: "string \<Rightarrow> string" where
  "strip s = rev (dropWhile is_space (rev (dropWhile is_space s)))"

definition lstrip_slash :: "string \<Rightarrow> string" where
  "lstrip_slash s = dropWhile (\<lambda>c. c = CHR ''/'') s"

text \<open>\<^verbatim>\<open>s.startswith(p)\<close>, and \<^verbatim>\<open>k in m\<close> on strings (substring test).\<close>

fun startswith :: "string \<Rightarrow> string \<Rightarrow> bool" where
  "startswith s [] = True"
| "startswith [] (p # ps) = False"
| "startswith (c # s) (p # ps) = (c = p \<and> startswith s ps)"

fun str_contains :: "string \<Rightarrow> string \<Rightarrow> bool" where
  "str_contains k [] = (k = [])"
| "str_contains k (c # m) = (startswith (c # m) k \<or> str_contains k m)"

text \<open>\<^verbatim>\<open>str.isdigit()\<close>: non-empty and every character a digit.\<close>

definition isdigit :: "string \<Rightarrow> bool" where
  "isdigit s = (s \<noteq> [] \<and> list_all is_digit s)"

text \<open>
  \<^verbatim>\<open>s.split(' ')[0]\<close> is the part before the first space; \<^verbatim>\<open>s.split(' ', 1)\<close> has a
  second part exactly when there is a space.
\<close>

definition first_word :: "string \<Rightarrow> string" where
  "first_word s = takeWhile (\<lambda>c. c \<noteq> CHR '' '') s"

definition after_first_space :: "string \<Rightarrow> string option" where
  "after_first_space s =
     (case dropWhile (\<lambda>c. c \<noteq> CHR '' '') s of [] \<Rightarrow> None | _ # r \<Rightarrow> Some r)"

text \<open>\<^verbatim>\<open>s.replace("[DECtalk] ", "")\<close>: every occurrence is removed, left to right.\<close>

definition dectalk_tag :: string where
  "dectalk_tag = ''[DECtalk] ''"

fun remove_dectalk_tag :: "string \<Rightarrow> string" where
  "remove_dectalk_tag [] = []"
| "remove_dectalk_tag (c # cs) =
     (if startswith (c # cs) dectalk_tag
      then remove_dectalk_tag (drop (length dectalk_tag - 1) cs)
      else c # remove_dectalk_tag cs)"

subsection \<open>The regular expressions of the voice commands\<close>

text \<open>
  The tail \<^verbatim>\<open>(?:\s+(.*))?$\<close> shared by the three patterns of
  \<^verbatim>\<open>process_voice_command\<close>, applied to what is left of the message. The result
  is \<open>None\<close> when the pattern does not match, \<open>Some None\<close> when it matches without the
  group and \<open>Some (Some t)\<close> when the group captured \<open>t\<close>. The dot does not match a
  newline, and \<^verbatim>\<open>$\<close> matches at the end or before a final newline.
\<close>

definition match_tail :: "string \<Rightarrow> string option option" where
  "match_tail r =
     (case r of
        [] \<Rightarrow> Some None
      | c # _ \<Rightarrow>
          if is_space c then
            (let t = dropWhile is_space r in
             if CHR 0x0A \<notin> set t then Some (Some t)
             else if last t = CHR 0x0A \<and> CHR 0x0A \<notin> set (butlast t) then Some (Some (butlast t))
             else None)
          else None)"

text \<open>
  \<^verbatim>\<open>^/WORD\s+(\d+)(?:\s+(.*))?$\<close> for a literal \<open>WORD\<close> (the toggle command, or
  \<^verbatim>\<open>v\<close>): the digits and the optional text.
\<close>

definition match_number_command :: "string \<Rightarrow> string \<Rightarrow> (string \<times> string option) option" where
  "match_number_command word message =
     (if startswith message (CHR ''/'' # word) then
        (let r1 = drop (Suc (length word)) message;
             r2 = dropWhile is_space r1;
             num = takeWhile is_decimal r2;
             r3 = dropWhile is_decimal r2
         in if r1 \<noteq> [] \<and> is_space (hd r1) \<and> num \<noteq> [] then
              (case match_tail r3 of None \<Rightarrow> None | Some g \<Rightarrow> Some (num, g))
            else None)
      else None)"

text \<open>\<^verbatim>\<open>^/([a-zA-Z0-9_]+)(?:\s+(.*))?$\<close>: the trigger and the optional text.\<close>

definition match_trigger_command :: "string \<Rightarrow> (string \<times> string option) option" where
  "match_trigger_command message =
     (case message of
        [] \<Rightarrow> None
      | c # r \<Rightarrow>
          (let trigger = takeWhile is_word r in
           if c = CHR ''/'' \<and> trigger \<noteq> [] then
             (case match_tail (dropWhile is_word r) of
                None \<Rightarrow> None | Some g \<Rightarrow> Some (trigger, g))
           else None))"

text \<open>The two prefix tests of \<^verbatim>\<open>on_chat_message\<close>: \<^verbatim>\<open>^/v\s+\d+\<close> and \<^verbatim>\<open>^/([a-zA-Z0-9_]+)\<close>.\<close>

definition matches_slash_v_number :: "string \<Rightarrow> bool" where
  "matches_slash_v_number message =
     (startswith message ''/v'' \<and>
      (let r1 = drop 2 message; r2 = dropWhile is_space r1
       in r1 \<noteq> [] \<and> is_space (hd r1) \<and> r2 \<noteq> [] \<and> is_decimal (hd r2)))"

definition slash_trigger :: "string \<Rightarrow> string option" where
  "slash_trigger message =
     (case message of
        [] \<Rightarrow> None
      | c # r \<Rightarrow> if c = CHR ''/'' \<and> takeWhile is_word r \<noteq> [] then Some (takeWhile is_word r)
                 else None)"

section \<open>The state of the application\<close>

record utterance =
  utt_text :: string
  utt_voice :: "string option"
  utt_username :: "string option"

record chat_msg =
  msg_username :: string
  msg_message :: string

text \<open>Calls into the audio layer, in the order they are made.\<close>

datatype audio_call =
    Stop
  | StopAllSpeech
  | DectalkStopSpeech
  | ApplyDefaultVoice
  | ApplyVoice string
  | Speak string
  | DectalkNativeSpeak string string
  | DectalkManagerSpeak string string

datatype log_warning =
    NoVoiceMapped string
  | NotConfigured string
  | UnknownTrigger string
  | NoVoicesAvailable
  | DectalkNotAvailable

text \<open>
  \<^verbatim>\<open>self.last_speaker\<close> is not set by \<^verbatim>\<open>__init__\<close> (which sets
  \<^verbatim>\<open>self.last_speakers\<close>): the field is \<open>None\<close> while the attribute does not exist,
  and reading it then raises.
\<close>

datatype py_error = AttributeError string

record state =
  blocked_listbox :: "string list"
  admin_listbox :: "string list"
  message_queue :: "utterance list"
  currently_speaking_user :: "string option"
  last_speaker :: "string option"
  user_voice_preferences :: "(string \<times> string) list"
  voice_commands :: "(string \<times> string) list"
  voice_toggle_command :: string
  random_voice_enabled :: bool
  random_voice_exclusions :: "string list"
  dectalk_profiles :: "string list"
  auto_block_var :: bool
  auto_block_keywords :: "string list"
  tts_command_prefix :: string
  private_mode_var :: bool
  announcement_enabled :: "(string \<times> bool) list"
  announcements :: "(string \<times> string) list"
  announcement_voice :: string
  audio_manager :: bool
  dectalk_native_available :: bool
  dectalk_manager_use :: bool
  audio_calls :: "audio_call list"
  warnings :: "log_warning list"

definition truthy :: "string option \<Rightarrow> bool" where
  "truthy v = (case v of None \<Rightarrow> False | Some x \<Rightarrow> x \<noteq> [])"

definition audio :: "audio_call list \<Rightarrow> state \<Rightarrow> state" where
  "audio cs s = s\<lparr>audio_calls := audio_calls s @ cs\<rparr>"

definition warn :: "log_warning \<Rightarrow> state \<Rightarrow> state" where
  "warn w s = s\<lparr>warnings := warnings s @ [w]\<rparr>"

section \<open>Queueing speech\<close>

definition speak :: "string \<Rightarrow> string option \<Rightarrow> string option \<Rightarrow> state \<Rightarrow> state" where
  "speak txt voice_name username s =
     (if audio_manager s
      then s\<lparr>message_queue := message_queue s @
             [\<lparr>utt_text = txt, utt_voice = voice_name, utt_username = username\<rparr>]\<rparr>
      else s)"

definition speak_with_voice :: "string \<Rightarrow> string \<Rightarrow> string option \<Rightarrow> state \<Rightarrow> state" where
  "speak_with_voice txt voice_name username s =
     (if \<not> audio_manager s then s else speak txt (Some voice_name) username s)"

definition apply_default_voice :: "state \<Rightarrow> state" where
  "apply_default_voice s = audio [ApplyDefaultVoice] s"

definition apply_voice :: "string \<Rightarrow> state \<Rightarrow> state" where
  "apply_voice voice_name s = audio [ApplyVoice voice_name] s"

definition force_stop_tts :: "state \<Rightarrow> state" where
  "force_stop_tts s = (if audio_manager s then audio [Stop] s else s)"

definition stop_all_speech :: "state \<Rightarrow> state" where
  "stop_all_speech s =
     (if audio_manager s
      then (audio [StopAllSpeech, DectalkStopSpeech] s)\<lparr>message_queue := []\<rparr>
      else s)"

text \<open>
  \<^verbatim>\<open>clear_user_from_queue\<close>: the queue is drained, the messages of other users are
  kept in order and put back.
\<close>

definition clear_user_from_queue :: "string \<Rightarrow> bool \<Rightarrow> state \<Rightarrow> state" where
  "clear_user_from_queue username add_to_blocked s =
     (if username = [] then s
      else
        (let s1 = (if add_to_blocked \<and> username \<notin> set (blocked_listbox s)
                   then s\<lparr>blocked_listbox := blocked_listbox s @ [username]\<rparr> else s);
             s2 = (if currently_speaking_user s1 = Some username \<and> audio_manager s1
                   then (audio [StopAllSpeech, StopAllSpeech, StopAllSpeech] s1)
                          \<lparr>currently_speaking_user := None\<rparr>
                   else s1)
         in s2\<lparr>message_queue :=
                 filter (\<lambda>m. utt_username m \<noteq> Some username) (message_queue s2)\<rparr>))"

definition get_announcement_text :: "string \<Rightarrow> string \<Rightarrow> state \<Rightarrow> string option" where
  "get_announcement_text announcement_type username s =
     (let toggle_key = (if announcement_type = ''AUTOBLOCK'' then ''AUTOBLOCK TRIGGERED''
                        else announcement_type)
      in if \<not> (case map_of (announcement_enabled s) toggle_key of None \<Rightarrow> True | Some b \<Rightarrow> b)
         then None
         else
           (let txt = (case map_of (announcements s) announcement_type of
                         None \<Rightarrow> [] | Some t \<Rightarrow> t)
            in if txt = [] then None
               else if username \<noteq> [] then Some (username @ '' '' @ txt)
               else Some txt))"

text \<open>
  The announcement goes to the front: the queue is drained into a list, the
  announcement is put, the drained messages are put back behind it.
\<close>

definition announcement :: "string \<Rightarrow> state \<Rightarrow> utterance" where
  "announcement txt s =
     \<lparr>utt_text = txt, utt_voice = Some (announcement_voice s),
      utt_username = Some ''__announcement__''\<rparr>"

definition put_announcement_first :: "string option \<Rightarrow> state \<Rightarrow> state" where
  "put_announcement_first announcement_text s =
     (case announcement_text of
        None \<Rightarrow> s
      | Some txt \<Rightarrow> s\<lparr>message_queue := announcement txt s # message_queue s\<rparr>)"

section \<open>Random voices for new users\<close>

text \<open>
  \<^verbatim>\<open>get_random_voice_for_user\<close>. The pool is built from the voice commands and the
  DECtalk profiles, minus the exclusions; \<^verbatim>\<open>random.choice\<close> is the index \<open>rnd\<close>
  reduced to the length of the pool.
\<close>

definition available_voices :: "state \<Rightarrow> string list" where
  "available_voices s =
     filter (\<lambda>voice_name. voice_name \<noteq> [] \<and> strip voice_name \<noteq> [] \<and>
                          voice_name \<notin> set (random_voice_exclusions s))
            (map snd (voice_commands s)) @
     filter (\<lambda>dectalk_voice. dectalk_voice \<notin> set (random_voice_exclusions s))
            (map (\<lambda>profile_name. dectalk_tag @ profile_name) (dectalk_profiles s))"

definition get_random_voice_for_user :: "nat \<Rightarrow> string \<Rightarrow> state \<Rightarrow> string option \<times> state" where
  "get_random_voice_for_user rnd username s =
     (let available = available_voices s
      in if available = [] then (None, warn NoVoicesAvailable s)
         else
           (let chosen_voice = available ! (rnd mod length available)
            in (Some chosen_voice,
                s\<lparr>user_voice_preferences :=
                     AList.update username chosen_voice (user_voice_preferences s)\<rparr>)))"

section \<open>Voice commands\<close>

definition group_text :: "string option \<Rightarrow> string" where
  "group_text g = (case g of None \<Rightarrow> [] | Some t \<Rightarrow> t)"

definition speak_if_text :: "string \<Rightarrow> string option \<Rightarrow> string option \<Rightarrow> state \<Rightarrow> state" where
  "speak_if_text txt voice_name username s =
     (if txt \<noteq> [] then
        (case voice_name of
           Some v \<Rightarrow> speak_with_voice txt v username s
         | None \<Rightarrow> speak txt None username s)
      else s)"

text \<open>The user voice toggle, \<^verbatim>\<open>/vt N [text]\<close>: the match has been made.\<close>

definition voice_toggle :: "string \<Rightarrow> string \<Rightarrow> string option \<Rightarrow> state \<Rightarrow> state" where
  "voice_toggle voice_num txt username s =
     (let cmd = ''v '' @ voice_num
      in case (if truthy username then map_of (voice_commands s) cmd else None) of
           Some voice_name \<Rightarrow>
             if voice_name = [] then
               speak_if_text txt None username (warn (NoVoiceMapped voice_num) s)
             else
               speak_if_text txt (Some voice_name) username
                 (s\<lparr>user_voice_preferences :=
                      AList.update (the username) voice_name (user_voice_preferences s)\<rparr>)
         | None \<Rightarrow> speak_if_text txt None username (warn (NotConfigured voice_num) s))"

text \<open>\<^verbatim>\<open>/v N [text]\<close>: a voice for this message only.\<close>

definition voice_number :: "string \<Rightarrow> string \<Rightarrow> string option \<Rightarrow> state \<Rightarrow> state" where
  "voice_number voice_num txt username s =
     (case map_of (voice_commands s) (''v '' @ voice_num) of
        Some voice_name \<Rightarrow> speak_if_text txt (Some voice_name) username s
      | None \<Rightarrow> speak_if_text txt None username (warn (NotConfigured voice_num) s))"

text \<open>\<^verbatim>\<open>/trigger [text]\<close>, with the legacy \<^verbatim>\<open>/vN\<close>.\<close>

definition voice_trigger :: "string \<Rightarrow> string \<Rightarrow> string \<Rightarrow> string option \<Rightarrow> state \<Rightarrow> state" where
  "voice_trigger original_message trigger txt username s =
     (case map_of (voice_commands s) trigger of
        Some voice_name \<Rightarrow> speak_if_text txt (Some voice_name) username s
      | None \<Rightarrow>
          if startswith trigger ''v'' \<and> length trigger > 1 then
            (case map_of (voice_commands s) (''v '' @ tl trigger) of
               Some voice_name \<Rightarrow> speak_if_text txt (Some voice_name) username s
             | None \<Rightarrow> speak_if_text txt None username (warn (NotConfigured (tl trigger)) s))
          else speak original_message None None (warn (UnknownTrigger trigger) s))"

text \<open>
  The legacy format \<^verbatim>\<open>v N [text]\<close>: \<^verbatim>\<open>message.split(' ', 2)\<close> on a message that
  starts with \<^verbatim>\<open>v\<close> and a space always has two parts. The text of an unmapped
  command is spoken without a username.
\<close>

definition voice_legacy :: "string \<Rightarrow> string option \<Rightarrow> state \<Rightarrow> state" where
  "voice_legacy message username s =
     (let voice_num = first_word (drop 2 message);
          txt = group_text (after_first_space (drop 2 message))
      in case map_of (voice_commands s) (''v '' @ voice_num) of
           Some voice_name \<Rightarrow> speak_if_text txt (Some voice_name) username s
         | None \<Rightarrow> speak_if_text txt None None (warn (NotConfigured voice_num) s))"

definition voice_direct :: "string \<Rightarrow> string option \<Rightarrow> state \<Rightarrow> state" where
  "voice_direct message username s =
     (case map_of (voice_commands s) (first_word message) of
        Some voice_name \<Rightarrow>
          speak_if_text (group_text (after_first_space message)) (Some voice_name) username s
      | None \<Rightarrow> speak message None username s)"

definition process_voice_command :: "string \<Rightarrow> string option \<Rightarrow> state \<Rightarrow> state" where
  "process_voice_command message username s =
     (if startswith message ''/'' then
        (case match_number_command (lstrip_slash (voice_toggle_command s)) message of
           Some (voice_num, g) \<Rightarrow> voice_toggle voice_num (group_text g) username s
         | None \<Rightarrow>
            (case match_number_command ''v'' message of
               Some (voice_num, g) \<Rightarrow> voice_number voice_num (group_text g) username s
             | None \<Rightarrow>
                (case match_trigger_command message of
                   Some (trigger, g) \<Rightarrow> voice_trigger message trigger (group_text g) username s
                 | None \<Rightarrow> speak message None None s)))
      else if startswith message ''v '' then voice_legacy message username s
      else voice_direct message username s)"

section \<open>Handling a chat message\<close>

text \<open>
  \<^verbatim>\<open>on_chat_message\<close>, in the order of the source: the blocked check, the auto-block
  scan, the admin commands, the TTS command, the private mode gate and the voice
  commands without the TTS prefix. The display of the message in the chat window and
  the saving of the lists to the configuration file are not modelled.
\<close>

definition keyword_matches :: "string \<Rightarrow> string \<Rightarrow> bool" where
  "keyword_matches message_lower keyword =
     (keyword \<noteq> [] \<and> str_contains (lower keyword) message_lower)"

definition auto_block_keyword :: "chat_msg \<Rightarrow> state \<Rightarrow> string option" where
  "auto_block_keyword msg s =
     (if auto_block_var s
      then find (keyword_matches (lower (msg_message msg))) (auto_block_keywords s)
      else None)"

definition auto_block :: "chat_msg \<Rightarrow> state \<Rightarrow> state" where
  "auto_block msg s =
     (let s1 = clear_user_from_queue (msg_username msg) True s
      in put_announcement_first (get_announcement_text ''AUTOBLOCK'' (msg_username msg) s1) s1)"

definition is_admin :: "chat_msg \<Rightarrow> state \<Rightarrow> bool" where
  "is_admin msg s = (msg_username msg \<in> set (admin_listbox s))"

definition block_command :: "chat_msg \<Rightarrow> state \<Rightarrow> py_error + state" where
  "block_command msg s =
     (if is_admin msg s then
        (case last_speaker s of
           None \<Rightarrow> Inl (AttributeError ''last_speaker'')
         | Some speaker \<Rightarrow>
            (let user_to_block =
                   (if truthy (currently_speaking_user s)
                    then the (currently_speaking_user s) else speaker)
             in if user_to_block \<noteq> [] \<and> user_to_block \<noteq> msg_username msg then
                  (let s1 = clear_user_from_queue user_to_block True s
                   in Inr (put_announcement_first
                             (get_announcement_text ''BLOCK ADD'' user_to_block s1) s1))
                else Inr s))
      else Inr s)"

definition admin_add_command :: "chat_msg \<Rightarrow> state \<Rightarrow> py_error + state" where
  "admin_add_command msg s =
     (case last_speaker s of
        None \<Rightarrow> Inl (AttributeError ''last_speaker'')
      | Some speaker \<Rightarrow>
          if speaker \<noteq> [] \<and> speaker \<noteq> msg_username msg then
            (let s1 = s\<lparr>admin_listbox := admin_listbox s @ [speaker]\<rparr>
             in Inr (put_announcement_first (get_announcement_text ''ADMIN ADD'' speaker s1) s1))
          else Inr s)"

definition block_clear_command :: "state \<Rightarrow> state" where
  "block_clear_command s =
     (if blocked_listbox s \<noteq> [] then
        (let last_user = last (blocked_listbox s);
             s1 = s\<lparr>blocked_listbox := butlast (blocked_listbox s)\<rparr>
         in put_announcement_first (get_announcement_text ''BLOCK REMOVE'' last_user s1) s1)
      else s)"

text \<open>
  The admin commands. The result is \<open>None\<close> when no command took the message and the
  function goes on to the TTS command: \<^verbatim>\<open>!admin add\<close> and \<^verbatim>\<open>!block clear\<close>
  return only inside the branch of an admin.
\<close>

definition admin_commands :: "chat_msg \<Rightarrow> state \<Rightarrow> (py_error + state) option" where
  "admin_commands msg s =
     (let message = strip (msg_message msg);
          command = strip (lower message)
      in if command = lower (tts_command_prefix s @ '' stop'') then
           Some (Inr (if is_admin msg s then force_stop_tts s else s))
         else if command = ''!stop'' then
           Some (Inr (if is_admin msg s then stop_all_speech s else s))
         else if command = ''!block add'' \<or> command = ''!block'' then
           Some (block_command msg s)
         else if command = ''!admin add'' \<and> is_admin msg s then
           Some (admin_add_command msg s)
         else if command = ''!block clear'' \<and> is_admin msg s then
           Some (Inr (block_clear_command s))
         else None)"

text \<open>A message with the TTS prefix and no voice command: the voice of the user.\<close>

definition speak_plain :: "nat \<Rightarrow> string \<Rightarrow> string \<Rightarrow> state \<Rightarrow> state" where
  "speak_plain rnd text_to_speak username s =
     (if username \<noteq> [] \<and> map_of (user_voice_preferences s) username \<noteq> None then
        speak text_to_speak (map_of (user_voice_preferences s) username) (Some username) s
      else if username \<noteq> [] \<and> random_voice_enabled s then
        (case get_random_voice_for_user rnd username s of
           (random_voice, s1) \<Rightarrow>
             if truthy random_voice then speak text_to_speak random_voice (Some username) s1
             else speak text_to_speak None (Some username) (apply_default_voice s1))
      else speak text_to_speak None (Some username) (apply_default_voice s))"

definition tts_command :: "nat \<Rightarrow> chat_msg \<Rightarrow> string \<Rightarrow> state \<Rightarrow> state" where
  "tts_command rnd msg text_to_speak s =
     (if private_mode_var s \<and> \<not> is_admin msg s then s
      else
        (let s1 = (if startswith text_to_speak ''/'' \<or> startswith text_to_speak ''v ''
                   then process_voice_command text_to_speak (Some (msg_username msg)) s
                   else speak_plain rnd text_to_speak (msg_username msg) s)
         in s1\<lparr>last_speaker := Some (msg_username msg)\<rparr>))"

text \<open>The patterns of a voice command without the TTS prefix.\<close>

definition is_voice_command :: "string \<Rightarrow> state \<Rightarrow> bool" where
  "is_voice_command message s =
     (matches_slash_v_number message
      \<or> (case slash_trigger message of
            None \<Rightarrow> False
          | Some trigger \<Rightarrow>
              map_of (voice_commands s) trigger \<noteq> None
              \<or> (startswith trigger ''v'' \<and> isdigit (tl trigger)))
      \<or> (startswith message ''v '' \<and> length message > 2 \<and> is_digit (message ! 2))
      \<or> map_of (voice_commands s) (first_word message) \<noteq> None)"

definition on_chat_message :: "nat \<Rightarrow> chat_msg \<Rightarrow> state \<Rightarrow> py_error + state" where
  "on_chat_message rnd msg s =
     (if msg_username msg \<in> set (blocked_listbox s) then Inr s
      else if auto_block_keyword msg s \<noteq> None then Inr (auto_block msg s)
      else
        (case admin_commands msg s of
           Some result \<Rightarrow> result
         | None \<Rightarrow>
            (let message = strip (msg_message msg);
                 tts_command_trigger = tts_command_prefix s @ '' ''
             in if startswith message tts_command_trigger then
                  Inr (tts_command rnd msg
                         (strip (drop (length tts_command_trigger) message)) s)
                else if private_mode_var s \<and> \<not> is_admin msg s then Inr s
                else if is_voice_command message s then
                  Inr (process_voice_command message (Some (msg_username msg)) s)
                else Inr s)))"

section \<open>The queue worker\<close>

text \<open>
  One turn of the loop of \<^verbatim>\<open>process_speech_queue\<close>. The voice of a message is the
  one it carries, else the preference of the user, else a random voice when random
  voices are enabled, else the default voice: \<open>Some v\<close> stands for
  \<^verbatim>\<open>apply_voice(v)\<close> and \<open>None\<close> for \<^verbatim>\<open>apply_default_voice()\<close>.
\<close>

definition worker_voice :: "nat \<Rightarrow> utterance \<Rightarrow> state \<Rightarrow> string option \<times> state" where
  "worker_voice rnd msg s =
     (if truthy (utt_voice msg) then (utt_voice msg, s)
      else
        (let username = utt_username msg
         in if truthy username \<and> map_of (user_voice_preferences s) (the username) \<noteq> None then
              (map_of (user_voice_preferences s) (the username), s)
            else if truthy username \<and> random_voice_enabled s then
              (case get_random_voice_for_user rnd (the username) s of
                 (random_voice, s1) \<Rightarrow>
                   if truthy random_voice then (random_voice, s1) else (None, s1))
            else (None, s)))"

definition apply_selected :: "string option \<Rightarrow> state \<Rightarrow> state" where
  "apply_selected v s =
     (case v of Some voice_name \<Rightarrow> apply_voice voice_name s | None \<Rightarrow> apply_default_voice s)"

text \<open>
  The call of the speech backend. The result says whether the synchronous DECtalk
  path was taken (\<^verbatim>\<open>used_special_voice\<close>). The routing of the audio device is not
  modelled.
\<close>

definition dispatch :: "utterance \<Rightarrow> state \<Rightarrow> bool \<times> state" where
  "dispatch msg s =
     (let username = utt_username msg;
          preference = (if truthy username
                        then map_of (user_voice_preferences s) (the username) else None);
          current_voice =
            (if \<not> truthy (utt_voice msg) \<and> preference \<noteq> None
                \<and> startswith (the preference) dectalk_tag
             then preference else utt_voice msg)
      in if truthy current_voice \<and> startswith (the current_voice) dectalk_tag then
           (if dectalk_native_available s then
              (True, audio [DectalkNativeSpeak (utt_text msg)
                              (remove_dectalk_tag (the current_voice))] s)
            else if dectalk_manager_use s then
              (True, audio [DectalkManagerSpeak (utt_text msg) (the current_voice)] s)
            else (False, audio [Speak (utt_text msg)] (warn DectalkNotAvailable s)))
         else (False, audio [Speak (utt_text msg)] s))"

text \<open>
  The wait for the end of the speech. What the worker cannot decide is given from
  outside, one \<open>poll\<close> for each turn of the loop: the answer of
  \<^verbatim>\<open>audio_manager.is_speaking()\<close>, and what the other threads did to the shared
  state during the sleep of 50 ms.

  \<^verbatim>\<open>wait_time\<close> is a double that grows by 0.05 each turn and the loop runs while it
  is below 60: after 1200 additions the sum is still below 60 (59.99999999999872), so
  the loop has at most 1201 turns. The first argument counts the turns that are left.
\<close>

record poll =
  is_speaking :: bool
  interference :: "state \<Rightarrow> state"

definition max_polls :: nat where
  "max_polls = 1201"

definition username_blocked :: "string option \<Rightarrow> state \<Rightarrow> bool" where
  "username_blocked username s =
     (case username of None \<Rightarrow> False | Some u \<Rightarrow> u \<in> set (blocked_listbox s))"

fun wait_for_speech :: "nat \<Rightarrow> nat \<Rightarrow> (nat \<Rightarrow> poll) \<Rightarrow> utterance \<Rightarrow> state \<Rightarrow> state" where
  "wait_for_speech 0 i polls msg s = s"
| "wait_for_speech (Suc remaining) i polls msg s =
     (if \<not> is_speaking (polls i) then s
      else
        (let s1 = interference (polls i) s
         in if username_blocked (utt_username msg) s1 then
              clear_user_from_queue (the (utt_username msg)) False (audio [StopAllSpeech] s1)
            else if currently_speaking_user s1 \<noteq> utt_username msg then
              audio [StopAllSpeech] s1
            else wait_for_speech remaining (Suc i) polls msg s1))"

definition speak_message :: "(nat \<Rightarrow> poll) \<Rightarrow> utterance \<Rightarrow> state \<Rightarrow> state" where
  "speak_message polls msg s =
     (if audio_manager s then
        (case dispatch msg s of
           (used_special_voice, s1) \<Rightarrow>
             if \<not> used_special_voice then wait_for_speech max_polls 0 polls msg s1 else s1)
      else s)"

definition clear_current_speaker :: "utterance \<Rightarrow> state \<Rightarrow> state" where
  "clear_current_speaker msg s =
     (if currently_speaking_user s = utt_username msg
      then s\<lparr>currently_speaking_user := None\<rparr> else s)"

definition process_speech_queue :: "nat \<Rightarrow> (nat \<Rightarrow> poll) \<Rightarrow> state \<Rightarrow> state" where
  "process_speech_queue rnd polls s =
     (case message_queue s of
        [] \<Rightarrow> s
      | msg # rest \<Rightarrow>
          (let s0 = s\<lparr>message_queue := rest\<rparr>
           in if username_blocked (utt_username msg) s0 then s0
              else
                (case worker_voice rnd msg (s0\<lparr>currently_speaking_user := utt_username msg\<rparr>) of
                   (v, s1) \<Rightarrow>
                     clear_current_speaker msg (speak_message polls msg (apply_selected v s1)))))"

section \<open>Example states\<close>

text \<open>
  The state after start-up with one admin: no one is blocked, nothing is queued, no
  one speaks, and \<^verbatim>\<open>last_speaker\<close> does not exist yet.
\<close>

definition startup_state :: state where
  "startup_state =
     \<lparr>blocked_listbox = [],
      admin_listbox = [''Alice''],
      message_queue = [],
      currently_speaking_user = None,
      last_speaker = None,
      user_voice_preferences = [],
      voice_commands = [(''v 0'', ''Sam''), (''v 1'', ''Zira''), (''v 5'', [])],
      voice_toggle_command = ''/vt'',
      random_voice_enabled = False,
      random_voice_exclusions = [],
      dectalk_profiles = [''Betty''],
      auto_block_var = True,
      auto_block_keywords = [''badword''],
      tts_command_prefix = ''!tts'',
      private_mode_var = False,
      announcement_enabled = [],
      announcements = [(''BLOCK ADD'', ''blocked''), (''AUTOBLOCK'', ''auto blocked''),
                       (''ADMIN ADD'', ''is admin''), (''BLOCK REMOVE'', ''unblocked'')],
      announcement_voice = ''Sam'',
      audio_manager = True,
      dectalk_native_available = True,
      dectalk_manager_use = True,
      audio_calls = [],
      warnings = []\<rparr>"

definition chat :: "string \<Rightarrow> string \<Rightarrow> chat_msg" where
  "chat username message = \<lparr>msg_username = username, msg_message = message\<rparr>"

definition said :: "string \<Rightarrow> string option \<Rightarrow> string \<Rightarrow> utterance" where
  "said txt voice_name username =
     \<lparr>utt_text = txt, utt_voice = voice_name, utt_username = Some username\<rparr>"

definition busy_state :: state where
  "busy_state = startup_state
     \<lparr>message_queue := [said ''one'' None ''Bob'', said ''two'' None ''Carol'',
                        said ''three'' None ''Bob''],
      currently_speaking_user := Some ''Bob''\<rparr>"

definition late_state :: state where
  "late_state = startup_state
     \<lparr>blocked_listbox := [''Bob''], message_queue := [said ''late'' None ''Bob'']\<rparr>"

definition random_state :: state where
  "random_state = startup_state\<lparr>random_voice_enabled := True\<rparr>"

definition excluded_pool_state :: state where
  "excluded_pool_state = startup_state
     \<lparr>random_voice_enabled := True,
      random_voice_exclusions := [''Sam'', ''Zira'', ''[DECtalk] Betty'']\<rparr>"

definition silent_polls :: "nat \<Rightarrow> poll" where
  "silent_polls i = \<lparr>is_speaking = False, interference = (\<lambda>s. s)\<rparr>"

text \<open>The queue of the second state is the queue of the first, or has one more message at the end.\<close>

definition grows_by_at_most_one :: "state \<Rightarrow> state \<Rightarrow> bool" where
  "grows_by_at_most_one s s' =
     (message_queue s' = message_queue s \<or> (\<exists>x. message_queue s' = message_queue s @ [x]))"

definition queued_state :: state where
  "queued_state = startup_state
     \<lparr>message_queue := [said ''one'' None ''Bob'', said ''two'' None ''Carol'']\<rparr>"

definition no_auto_block_state :: state where
  "no_auto_block_state = queued_state\<lparr>auto_block_var := False\<rparr>"

definition no_announcement_state :: state where
  "no_announcement_state = queued_state\<lparr>announcement_enabled := [(''AUTOBLOCK TRIGGERED'', False)]\<rparr>"

text \<open>
  The course of a wait: \<open>drift polls i k s\<close> is the shared state after the other threads
  acted during \<open>k\<close> sleeps, from poll \<open>i\<close> on; \<open>uneventful polls msg i k s\<close> says that
  during these \<open>k\<close> turns the backend was speaking, the user of \<open>msg\<close> was not blocked and
  the marker of the current speaker was still this user.
\<close>

fun drift :: "(nat \<Rightarrow> poll) \<Rightarrow> nat \<Rightarrow> nat \<Rightarrow> state \<Rightarrow> state" where
  "drift polls i 0 s = s"
| "drift polls i (Suc k) s = drift polls (Suc i) k (interference (polls i) s)"

fun uneventful :: "(nat \<Rightarrow> poll) \<Rightarrow> utterance \<Rightarrow> nat \<Rightarrow> nat \<Rightarrow> state \<Rightarrow> bool" where
  "uneventful polls msg i 0 s = True"
| "uneventful polls msg i (Suc k) s =
     (is_speaking (polls i)
      \<and> \<not> username_blocked (utt_username msg) (interference (polls i) s)
      \<and> currently_speaking_user (interference (polls i) s) = utt_username msg
      \<and> uneventful polls msg (Suc i) k (interference (polls i) s))"

definition stuck_polls :: "nat \<Rightarrow> poll" where
  "stuck_polls i = \<lparr>is_speaking = True, interference = (\<lambda>s. s)\<rparr>"

definition stuck_state :: state where
  "stuck_state = startup_state\<lparr>message_queue := [said ''long'' (Some ''Sam'') ''Bob'']\<rparr>"

definition done_polls :: "nat \<Rightarrow> poll" where
  "done_polls i = \<lparr>is_speaking = (i < 3), interference = (\<lambda>s. s)\<rparr>"

definition block_polls :: "nat \<Rightarrow> poll" where
  "block_polls i =
     \<lparr>is_speaking = True,
      interference = (\<lambda>s. if i = 2 then s\<lparr>blocked_listbox := blocked_listbox s @ [''Bob'']\<rparr> else s)\<rparr>"

definition interrupt_polls :: "nat \<Rightarrow> poll" where
  "interrupt_polls i =
     \<lparr>is_speaking = True,
      interference = (\<lambda>s. if i = 1 then s\<lparr>currently_speaking_user := None\<rparr> else s)\<rparr>"

definition speaking_state :: state where
  "speaking_state = startup_state
     \<lparr>message_queue := [said ''next'' None ''Bob'', said ''other'' None ''Carol''],
      currently_speaking_user := Some ''Bob''\<rparr>"

definition admin_prefix_state :: state where
  "admin_prefix_state = startup_state\<lparr>tts_command_prefix := ''!admin''\<rparr>"

section \<open>Properties\<close>

subsection \<open>Private mode\<close>

lemma admin_commands_non_admin:
  "\<not> is_admin msg s \<Longrightarrow> admin_commands msg s = None \<or> admin_commands msg s = Some (Inr s)"
  by (simp add: admin_commands_def block_command_def Let_def)

text \<open>
  C10. In private mode a message of a user who is not an admin changes nothing,
  with or without the TTS prefix and also when it is a voice command: nothing is
  queued. The blocked check and the auto-block scan come before the gate: a message
  with an auto-block keyword from such a user still blocks the user. The admin
  commands come before the gate too, and from such a user they change nothing either.
\<close>

theorem private_mode_gate:
  assumes "private_mode_var s" and "\<not> is_admin msg s"
  shows "(auto_block_keyword msg s = None \<longrightarrow> on_chat_message rnd msg s = Inr s)
       \<and> (msg_username msg \<notin> set (blocked_listbox s) \<and> auto_block_keyword msg s \<noteq> None
            \<longrightarrow> on_chat_message rnd msg s = Inr (auto_block msg s))"
  using assms admin_commands_non_admin[of msg s]
  by (auto simp add: on_chat_message_def tts_command_def Let_def)

theorem private_mode_gate_witness:
  "private_mode_var (startup_state\<lparr>private_mode_var := True\<rparr>)
   \<and> \<not> is_admin (chat ''Bob'' ''!tts hello'') (startup_state\<lparr>private_mode_var := True\<rparr>)
   \<and> auto_block_keyword (chat ''Bob'' ''!tts hello'') (startup_state\<lparr>private_mode_var := True\<rparr>) = None
   \<and> on_chat_message 0 (chat ''Bob'' ''!tts hello'') (startup_state\<lparr>private_mode_var := True\<rparr>)
       = Inr (startup_state\<lparr>private_mode_var := True\<rparr>)
   \<and> \<not> is_admin (chat ''Bob'' ''!tts a BadWord'') (startup_state\<lparr>private_mode_var := True\<rparr>)
   \<and> msg_username (chat ''Bob'' ''!tts a BadWord'')
       \<notin> set (blocked_listbox (startup_state\<lparr>private_mode_var := True\<rparr>))
   \<and> auto_block_keyword (chat ''Bob'' ''!tts a BadWord'') (startup_state\<lparr>private_mode_var := True\<rparr>)
       \<noteq> None
   \<and> on_chat_message 0 (chat ''Bob'' ''!tts a BadWord'') (startup_state\<lparr>private_mode_var := True\<rparr>)
       = Inr (auto_block (chat ''Bob'' ''!tts a BadWord'') (startup_state\<lparr>private_mode_var := True\<rparr>))"
proof -
  let ?s = "startup_state\<lparr>private_mode_var := True\<rparr>"
  have p: "private_mode_var ?s" by simp
  have a1: "\<not> is_admin (chat ''Bob'' ''!tts hello'') ?s" by code_simp
  have k1: "auto_block_keyword (chat ''Bob'' ''!tts hello'') ?s = None" by code_simp
  have a2: "\<not> is_admin (chat ''Bob'' ''!tts a BadWord'') ?s" by code_simp
  have b2: "msg_username (chat ''Bob'' ''!tts a BadWord'') \<notin> set (blocked_listbox ?s)"
    by code_simp
  have k2: "auto_block_keyword (chat ''Bob'' ''!tts a BadWord'') ?s \<noteq> None" by code_simp
  show ?thesis
    using p a1 k1 a2 b2 k2
      private_mode_gate[OF p a1, of 0] private_mode_gate[OF p a2, of 0]
    by blast
qed

subsection \<open>Purging the queue of a blocked user\<close>

lemma clear_user_queue:
  "u \<noteq> [] \<Longrightarrow> message_queue (clear_user_from_queue u b s)
     = filter (\<lambda>m. utt_username m \<noteq> Some u) (message_queue s)"
  by (simp add: clear_user_from_queue_def audio_def Let_def)

lemma clear_user_blocked:
  "u \<noteq> [] \<Longrightarrow> u \<in> set (blocked_listbox (clear_user_from_queue u True s))"
  by (simp add: clear_user_from_queue_def audio_def Let_def)

lemma clear_user_stops:
  "u \<noteq> [] \<Longrightarrow> currently_speaking_user s = Some u \<Longrightarrow> audio_manager s \<Longrightarrow>
   audio_calls (clear_user_from_queue u b s)
     = audio_calls s @ [StopAllSpeech, StopAllSpeech, StopAllSpeech]
   \<and> currently_speaking_user (clear_user_from_queue u b s) = None"
  by (simp add: clear_user_from_queue_def audio_def Let_def)

lemma worker_discards_blocked:
  "u \<in> set (blocked_listbox t) \<Longrightarrow> message_queue t = m # rest \<Longrightarrow> utt_username m = Some u \<Longrightarrow>
   process_speech_queue rnd polls t = t\<lparr>message_queue := rest\<rparr>"
  by (simp add: process_speech_queue_def username_blocked_def Let_def)

lemma announcement_first_queue:
  "message_queue (put_announcement_first a s)
     = (case a of None \<Rightarrow> message_queue s | Some txt \<Rightarrow> announcement txt s # message_queue s)"
  by (simp add: put_announcement_first_def split: option.splits)

text \<open>
  C2. Blocking a user \<open>u\<close> (\<^verbatim>\<open>clear_user_from_queue\<close> with
  \<^verbatim>\<open>add_to_blocked=True\<close>, the path of the manual and of the automatic block) puts
  \<open>u\<close> in the blocked list and leaves in the queue exactly the messages of the other
  users, in their order: none of \<open>u\<close> is left. When \<open>u\<close> is the one speaking, the
  backend stop is called three times and the marker of the current speaker is cleared.
  The announcement that the callers put in front afterwards carries the name
  \<^verbatim>\<open>__announcement__\<close>, so the queue still has no message of \<open>u\<close> unless \<open>u\<close> is
  that very name. The worker drops a message it pops when its user is in the blocked
  list, without a call to the backend.
\<close>

theorem block_purges_queue:
  assumes "u \<noteq> []"
  shows "u \<in> set (blocked_listbox (clear_user_from_queue u True s))
     \<and> message_queue (clear_user_from_queue u True s)
         = filter (\<lambda>m. utt_username m \<noteq> Some u) (message_queue s)
     \<and> (\<forall>m \<in> set (message_queue (clear_user_from_queue u True s)). utt_username m \<noteq> Some u)
     \<and> (currently_speaking_user s = Some u \<and> audio_manager s \<longrightarrow>
          audio_calls (clear_user_from_queue u True s)
            = audio_calls s @ [StopAllSpeech, StopAllSpeech, StopAllSpeech]
          \<and> currently_speaking_user (clear_user_from_queue u True s) = None)
     \<and> (u \<noteq> ''__announcement__'' \<longrightarrow>
          (\<forall>m \<in> set (message_queue (put_announcement_first a (clear_user_from_queue u True s))).
             utt_username m \<noteq> Some u))
     \<and> (u \<in> set (blocked_listbox t) \<and> message_queue t = m # rest \<and> utt_username m = Some u \<longrightarrow>
          process_speech_queue rnd polls t = t\<lparr>message_queue := rest\<rparr>)"
proof -
  have q: "message_queue (clear_user_from_queue u True s)
             = filter (\<lambda>m. utt_username m \<noteq> Some u) (message_queue s)"
    using assms by (rule clear_user_queue)
  have survivors: "\<forall>m \<in> set (message_queue (clear_user_from_queue u True s)). utt_username m \<noteq> Some u"
    by (simp add: q)
  have ann: "u \<noteq> ''__announcement__'' \<longrightarrow>
          (\<forall>m \<in> set (message_queue (put_announcement_first a (clear_user_from_queue u True s))).
             utt_username m \<noteq> Some u)"
    using survivors by (auto simp add: announcement_first_queue announcement_def split: option.splits)
  have blocked: "u \<in> set (blocked_listbox (clear_user_from_queue u True s))"
    using assms by (rule clear_user_blocked)
  have stops: "currently_speaking_user s = Some u \<and> audio_manager s \<longrightarrow>
          audio_calls (clear_user_from_queue u True s)
            = audio_calls s @ [StopAllSpeech, StopAllSpeech, StopAllSpeech]
          \<and> currently_speaking_user (clear_user_from_queue u True s) = None"
    using assms clear_user_stops[of u s True] by simp
  have worker: "u \<in> set (blocked_listbox t) \<and> message_queue t = m # rest \<and> utt_username m = Some u \<longrightarrow>
          process_speech_queue rnd polls t = t\<lparr>message_queue := rest\<rparr>"
    using worker_discards_blocked[of u t m rest rnd polls] by simp
  from blocked q survivors stops ann worker show ?thesis
    by (intro conjI)
qed

theorem block_purges_queue_witness:
  "''Bob'' \<noteq> []
   \<and> currently_speaking_user busy_state = Some ''Bob'' \<and> audio_manager busy_state
   \<and> ''Bob'' \<noteq> ''__announcement__''
   \<and> ''Bob'' \<in> set (blocked_listbox late_state)
   \<and> message_queue late_state = said ''late'' None ''Bob'' # []
   \<and> utt_username (said ''late'' None ''Bob'') = Some ''Bob''
   \<and> message_queue (clear_user_from_queue ''Bob'' True busy_state) = [said ''two'' None ''Carol'']
   \<and> audio_calls (clear_user_from_queue ''Bob'' True busy_state)
        = audio_calls busy_state @ [StopAllSpeech, StopAllSpeech, StopAllSpeech]
   \<and> list_all (\<lambda>m. utt_username m \<noteq> Some ''Bob'')
         (message_queue (put_announcement_first (Some ''Bob blocked'')
                           (clear_user_from_queue ''Bob'' True busy_state)))
   \<and> process_speech_queue 0 silent_polls late_state = late_state\<lparr>message_queue := []\<rparr>"
proof -
  have h: "''Bob'' \<noteq> []" by simp
  have c: "currently_speaking_user busy_state = Some ''Bob'' \<and> audio_manager busy_state"
    by code_simp
  have a: "''Bob'' \<noteq> ''__announcement__''" by simp
  have l: "''Bob'' \<in> set (blocked_listbox late_state)
           \<and> message_queue late_state = said ''late'' None ''Bob'' # []
           \<and> utt_username (said ''late'' None ''Bob'') = Some ''Bob''"
    by code_simp
  have f: "filter (\<lambda>m. utt_username m \<noteq> Some ''Bob'') (message_queue busy_state)
             = [said ''two'' None ''Carol'']"
    by code_simp
  note t = block_purges_queue[OF h, of busy_state "Some ''Bob blocked''" late_state
                         "said ''late'' None ''Bob''" "[]" 0 silent_polls]
  from t f have q: "message_queue (clear_user_from_queue ''Bob'' True busy_state)
                      = [said ''two'' None ''Carol'']"
    by (simp only:)
  from t c have s: "audio_calls (clear_user_from_queue ''Bob'' True busy_state)
        = audio_calls busy_state @ [StopAllSpeech, StopAllSpeech, StopAllSpeech]"
    by blast
  from t l have w: "process_speech_queue 0 silent_polls late_state = late_state\<lparr>message_queue := []\<rparr>"
    by blast
  from t a have "\<forall>m \<in> set (message_queue (put_announcement_first (Some ''Bob blocked'')
                                      (clear_user_from_queue ''Bob'' True busy_state))).
                   utt_username m \<noteq> Some ''Bob''"
    by blast
  then have p: "list_all (\<lambda>m. utt_username m \<noteq> Some ''Bob'')
         (message_queue (put_announcement_first (Some ''Bob blocked'')
                           (clear_user_from_queue ''Bob'' True busy_state)))"
    by (simp only: list_all_iff)
  from h c a l q s p w show ?thesis by blast
qed

subsection \<open>Voice resolution\<close>

lemma available_voices_nonempty: "v \<in> set (available_voices s) \<Longrightarrow> v \<noteq> []"
  by (auto simp add: available_voices_def dectalk_tag_def)

lemma available_voices_warn [simp]: "available_voices (warn w s) = available_voices s"
  by (simp add: available_voices_def warn_def)

lemma available_voices_excluded: "v \<in> set (available_voices s) \<Longrightarrow> v \<notin> set (random_voice_exclusions s)"
  by (auto simp add: available_voices_def)

lemma available_voices_source:
  "v \<in> set (available_voices s) \<Longrightarrow>
   v \<in> set (map snd (voice_commands s))
   \<or> v \<in> set (map (\<lambda>profile_name. dectalk_tag @ profile_name) (dectalk_profiles s))"
  by (auto simp add: available_voices_def)

lemma available_voices_empty:
  assumes "list_all (\<lambda>x. x = [] \<or> strip x = [] \<or> x \<in> set (random_voice_exclusions s))
             (map snd (voice_commands s))"
      and "list_all (\<lambda>p. dectalk_tag @ p \<in> set (random_voice_exclusions s)) (dectalk_profiles s)"
  shows "available_voices s = []"
  using assms by (auto simp add: available_voices_def list_all_iff filter_empty_conv)

lemma worker_voice_random:
  assumes "\<not> truthy (utt_voice msg)" and "truthy (utt_username msg)"
      and "map_of (user_voice_preferences s) (the (utt_username msg)) = None"
      and "random_voice_enabled s"
  shows "worker_voice r msg s =
     (if available_voices s = [] then (None, s\<lparr>warnings := warnings s @ [NoVoicesAvailable]\<rparr>)
      else (Some (available_voices s ! (r mod length (available_voices s))),
            s\<lparr>user_voice_preferences :=
                 AList.update (the (utt_username msg))
                   (available_voices s ! (r mod length (available_voices s)))
                   (user_voice_preferences s)\<rparr>))"
proof (cases "available_voices s = []")
  case True
  with assms show ?thesis
    by (simp add: worker_voice_def get_random_voice_for_user_def Let_def warn_def truthy_def)
next
  case False
  then have "available_voices s ! (r mod length (available_voices s)) \<in> set (available_voices s)"
    by simp
  then have "available_voices s ! (r mod length (available_voices s)) \<noteq> []"
    by (rule available_voices_nonempty)
  with False assms show ?thesis
    by (simp add: worker_voice_def get_random_voice_for_user_def Let_def truthy_def)
qed

text \<open>
  C6. For a message without a voice of its own, resolving the voice a second time
  gives the voice of the first time, whatever the random draws \<open>r1\<close> and \<open>r2\<close>. When
  random voices are enabled and the user has no preference yet, a drawn voice is not
  empty, is not excluded, comes from the voice commands or the DECtalk profiles, and is
  stored as the preference of the user, where the second resolution reads it back.
  When every voice of the voice commands is empty, blank or excluded and every DECtalk
  profile is excluded, the pool is empty: the resolution gives the default voice and
  the only change of the state is the warning added to the log.
\<close>

theorem voice_resolution_idempotent:
  assumes "\<not> truthy (utt_voice msg)" and "worker_voice r1 msg s = (v, s1)"
  shows "fst (worker_voice r2 msg s1) = v
     \<and> (random_voice_enabled s \<and> truthy (utt_username msg)
          \<and> map_of (user_voice_preferences s) (the (utt_username msg)) = None
          \<and> list_all (\<lambda>x. x = [] \<or> strip x = [] \<or> x \<in> set (random_voice_exclusions s))
               (map snd (voice_commands s))
          \<and> list_all (\<lambda>p. dectalk_tag @ p \<in> set (random_voice_exclusions s)) (dectalk_profiles s)
        \<longrightarrow> v = None \<and> s1 = s\<lparr>warnings := warnings s @ [NoVoicesAvailable]\<rparr>)
     \<and> (random_voice_enabled s \<and> truthy (utt_username msg)
          \<and> map_of (user_voice_preferences s) (the (utt_username msg)) = None
          \<and> v \<noteq> None
        \<longrightarrow> the v \<noteq> [] \<and> the v \<notin> set (random_voice_exclusions s)
            \<and> (the v \<in> set (map snd (voice_commands s))
                \<or> the v \<in> set (map (\<lambda>profile_name. dectalk_tag @ profile_name) (dectalk_profiles s)))
            \<and> s1 = s\<lparr>user_voice_preferences :=
                        AList.update (the (utt_username msg)) (the v) (user_voice_preferences s)\<rparr>
            \<and> map_of (user_voice_preferences s1) (the (utt_username msg)) = v)"
proof -
  have idem: "fst (worker_voice r2 msg s1) = v"
  proof (cases "truthy (utt_username msg) \<and> map_of (user_voice_preferences s) (the (utt_username msg)) \<noteq> None")
    case True
    with assms show ?thesis by (auto simp add: worker_voice_def Let_def)
  next
    case nopref: False
    show ?thesis
    proof (cases "truthy (utt_username msg) \<and> random_voice_enabled s")
      case False
      with nopref assms show ?thesis by (auto simp add: worker_voice_def Let_def)
    next
      case rnd: True
      with nopref have np: "map_of (user_voice_preferences s) (the (utt_username msg)) = None"
        by simp
      have w: "worker_voice r1 msg s =
         (if available_voices s = [] then (None, s\<lparr>warnings := warnings s @ [NoVoicesAvailable]\<rparr>)
          else (Some (available_voices s ! (r1 mod length (available_voices s))),
                s\<lparr>user_voice_preferences :=
                     AList.update (the (utt_username msg))
                       (available_voices s ! (r1 mod length (available_voices s)))
                       (user_voice_preferences s)\<rparr>))"
        using assms(1) rnd np by (intro worker_voice_random) simp_all
      show ?thesis
      proof (cases "available_voices s = []")
        case e: True
        with w assms(2) have v: "v = None" and s1: "s1 = s\<lparr>warnings := warnings s @ [NoVoicesAvailable]\<rparr>"
          by simp_all
        have e1: "available_voices s1 = []" using e s1 by (simp add: available_voices_def)
        have "worker_voice r2 msg s1 = (None, s1\<lparr>warnings := warnings s1 @ [NoVoicesAvailable]\<rparr>)"
          using assms(1) rnd np s1 e1 by (simp add: worker_voice_random)
        then show ?thesis using v by simp
      next
        case ne: False
        with w assms(2) have v: "v = Some (available_voices s ! (r1 mod length (available_voices s)))"
          and s1: "s1 = s\<lparr>user_voice_preferences :=
                     AList.update (the (utt_username msg))
                       (available_voices s ! (r1 mod length (available_voices s)))
                       (user_voice_preferences s)\<rparr>"
          by simp_all
        show ?thesis using v s1 rnd assms(1)
          by (simp add: worker_voice_def Let_def update_conv')
      qed
    qed
  qed
  have empty: "random_voice_enabled s \<and> truthy (utt_username msg)
          \<and> map_of (user_voice_preferences s) (the (utt_username msg)) = None
          \<and> list_all (\<lambda>x. x = [] \<or> strip x = [] \<or> x \<in> set (random_voice_exclusions s))
               (map snd (voice_commands s))
          \<and> list_all (\<lambda>p. dectalk_tag @ p \<in> set (random_voice_exclusions s)) (dectalk_profiles s)
        \<longrightarrow> v = None \<and> s1 = s\<lparr>warnings := warnings s @ [NoVoicesAvailable]\<rparr>"
  proof
    assume a: "random_voice_enabled s \<and> truthy (utt_username msg)
          \<and> map_of (user_voice_preferences s) (the (utt_username msg)) = None
          \<and> list_all (\<lambda>x. x = [] \<or> strip x = [] \<or> x \<in> set (random_voice_exclusions s))
               (map snd (voice_commands s))
          \<and> list_all (\<lambda>p. dectalk_tag @ p \<in> set (random_voice_exclusions s)) (dectalk_profiles s)"
    then have e: "available_voices s = []" by (intro available_voices_empty) simp_all
    from a assms(1) have "worker_voice r1 msg s = (None, s\<lparr>warnings := warnings s @ [NoVoicesAvailable]\<rparr>)"
      by (simp add: worker_voice_random e)
    with assms(2) show "v = None \<and> s1 = s\<lparr>warnings := warnings s @ [NoVoicesAvailable]\<rparr>" by simp
  qed
  have drawn: "random_voice_enabled s \<and> truthy (utt_username msg)
          \<and> map_of (user_voice_preferences s) (the (utt_username msg)) = None
          \<and> v \<noteq> None
        \<longrightarrow> the v \<noteq> [] \<and> the v \<notin> set (random_voice_exclusions s)
            \<and> (the v \<in> set (map snd (voice_commands s))
                \<or> the v \<in> set (map (\<lambda>profile_name. dectalk_tag @ profile_name) (dectalk_profiles s)))
            \<and> s1 = s\<lparr>user_voice_preferences :=
                        AList.update (the (utt_username msg)) (the v) (user_voice_preferences s)\<rparr>
            \<and> map_of (user_voice_preferences s1) (the (utt_username msg)) = v"
  proof
    assume a: "random_voice_enabled s \<and> truthy (utt_username msg)
          \<and> map_of (user_voice_preferences s) (the (utt_username msg)) = None
          \<and> v \<noteq> None"
    define c where "c = available_voices s ! (r1 mod length (available_voices s))"
    from a assms have ne: "available_voices s \<noteq> []"
      by (auto simp add: worker_voice_random)
    then have mem: "c \<in> set (available_voices s)" by (simp add: c_def)
    from a assms(1) ne have "worker_voice r1 msg s =
        (Some c, s\<lparr>user_voice_preferences :=
                     AList.update (the (utt_username msg)) c (user_voice_preferences s)\<rparr>)"
      by (simp add: worker_voice_random c_def)
    with assms(2) have v: "v = Some c"
      and s1: "s1 = s\<lparr>user_voice_preferences :=
                     AList.update (the (utt_username msg)) c (user_voice_preferences s)\<rparr>"
      by simp_all
    show "the v \<noteq> [] \<and> the v \<notin> set (random_voice_exclusions s)
            \<and> (the v \<in> set (map snd (voice_commands s))
                \<or> the v \<in> set (map (\<lambda>profile_name. dectalk_tag @ profile_name) (dectalk_profiles s)))
            \<and> s1 = s\<lparr>user_voice_preferences :=
                        AList.update (the (utt_username msg)) (the v) (user_voice_preferences s)\<rparr>
            \<and> map_of (user_voice_preferences s1) (the (utt_username msg)) = v"
      using available_voices_nonempty[OF mem] available_voices_excluded[OF mem]
        available_voices_source[OF mem] v s1
      by (simp add: update_conv')
  qed
  from idem empty drawn show ?thesis by (intro conjI)
qed

theorem voice_resolution_idempotent_witness:
  "\<not> truthy (utt_voice (said ''hi'' None ''Bob''))
   \<and> worker_voice 1 (said ''hi'' None ''Bob'') random_state
       = (Some ''Zira'', random_state\<lparr>user_voice_preferences := [(''Bob'', ''Zira'')]\<rparr>)
   \<and> random_voice_enabled random_state \<and> truthy (utt_username (said ''hi'' None ''Bob''))
   \<and> map_of (user_voice_preferences random_state) (the (utt_username (said ''hi'' None ''Bob''))) = None
   \<and> Some ''Zira'' \<noteq> None
   \<and> fst (worker_voice 2 (said ''hi'' None ''Bob'')
             (random_state\<lparr>user_voice_preferences := [(''Bob'', ''Zira'')]\<rparr>)) = Some ''Zira''
   \<and> the (Some ''Zira'') \<notin> set (random_voice_exclusions random_state)
   \<and> map_of (user_voice_preferences (random_state\<lparr>user_voice_preferences := [(''Bob'', ''Zira'')]\<rparr>))
        (the (utt_username (said ''hi'' None ''Bob''))) = Some ''Zira''
   \<and> random_voice_enabled excluded_pool_state
   \<and> map_of (user_voice_preferences excluded_pool_state)
        (the (utt_username (said ''hi'' None ''Bob''))) = None
   \<and> list_all (\<lambda>x. x = [] \<or> strip x = [] \<or> x \<in> set (random_voice_exclusions excluded_pool_state))
        (map snd (voice_commands excluded_pool_state))
   \<and> list_all (\<lambda>p. dectalk_tag @ p \<in> set (random_voice_exclusions excluded_pool_state))
        (dectalk_profiles excluded_pool_state)
   \<and> worker_voice 1 (said ''hi'' None ''Bob'') excluded_pool_state
       = (None, excluded_pool_state\<lparr>warnings := [NoVoicesAvailable]\<rparr>)
   \<and> excluded_pool_state\<lparr>warnings := [NoVoicesAvailable]\<rparr>
       = excluded_pool_state\<lparr>warnings := warnings excluded_pool_state @ [NoVoicesAvailable]\<rparr>
   \<and> fst (worker_voice 2 (said ''hi'' None ''Bob'')
             (excluded_pool_state\<lparr>warnings := [NoVoicesAvailable]\<rparr>)) = None"
proof -
  let ?m = "said ''hi'' None ''Bob''"
  let ?s1 = "random_state\<lparr>user_voice_preferences := [(''Bob'', ''Zira'')]\<rparr>"
  let ?s2 = "excluded_pool_state\<lparr>warnings := [NoVoicesAvailable]\<rparr>"
  have v: "\<not> truthy (utt_voice ?m)" by code_simp
  have w1: "worker_voice 1 ?m random_state = (Some ''Zira'', ?s1)" by code_simp
  have a1: "random_voice_enabled random_state \<and> truthy (utt_username ?m)
            \<and> map_of (user_voice_preferences random_state) (the (utt_username ?m)) = None
            \<and> Some ''Zira'' \<noteq> None"
    by code_simp
  have w2: "worker_voice 1 ?m excluded_pool_state = (None, ?s2)" by code_simp
  have a2: "random_voice_enabled excluded_pool_state
            \<and> map_of (user_voice_preferences excluded_pool_state) (the (utt_username ?m)) = None
            \<and> list_all (\<lambda>x. x = [] \<or> strip x = [] \<or> x \<in> set (random_voice_exclusions excluded_pool_state))
                 (map snd (voice_commands excluded_pool_state))
            \<and> list_all (\<lambda>p. dectalk_tag @ p \<in> set (random_voice_exclusions excluded_pool_state))
                 (dectalk_profiles excluded_pool_state)"
    by code_simp
  from a1 voice_resolution_idempotent[OF v w1, of 2]
  have r1: "fst (worker_voice 2 ?m ?s1) = Some ''Zira''
            \<and> the (Some ''Zira'') \<notin> set (random_voice_exclusions random_state)
            \<and> map_of (user_voice_preferences ?s1) (the (utt_username ?m)) = Some ''Zira''"
    by blast
  from a1 a2 voice_resolution_idempotent[OF v w2, of 2]
  have r2: "fst (worker_voice 2 ?m ?s2) = None
            \<and> ?s2 = excluded_pool_state\<lparr>warnings := warnings excluded_pool_state @ [NoVoicesAvailable]\<rparr>"
    by blast
  from v w1 a1 r1 a2 w2 r2 show ?thesis by blast
qed

subsection \<open>Messages without the TTS prefix\<close>

lemma queue_speak_if_text:
  "message_queue (speak_if_text t v u s) = message_queue s
   \<or> (\<exists>x. message_queue (speak_if_text t v u s) = message_queue s @ [x])"
  by (simp add: speak_if_text_def speak_with_voice_def speak_def split: option.splits)

lemma queue_speak:
  "message_queue (speak t v u s) = message_queue s
   \<or> (\<exists>x. message_queue (speak t v u s) = message_queue s @ [x])"
  by (simp add: speak_def)

lemma grows_speak_if_text:
  "message_queue s1 = message_queue s \<Longrightarrow> grows_by_at_most_one s (speak_if_text t v u s1)"
  using queue_speak_if_text[of t v u s1] by (simp add: grows_by_at_most_one_def)

lemma grows_speak:
  "message_queue s1 = message_queue s \<Longrightarrow> grows_by_at_most_one s (speak t v u s1)"
  using queue_speak[of t v u s1] by (simp add: grows_by_at_most_one_def)

lemma queue_warn [simp]: "message_queue (warn w s) = message_queue s"
  by (simp add: warn_def)

lemma process_voice_command_grows:
  "grows_by_at_most_one s (process_voice_command message username s)"
  by (simp add: process_voice_command_def voice_toggle_def voice_number_def voice_trigger_def
        voice_legacy_def voice_direct_def Let_def grows_speak_if_text grows_speak
        split: option.splits prod.splits)

text \<open>
  The claim that a voice command without the TTS prefix never causes speech fails:
  \<^verbatim>\<open>/v 1 hello\<close> from Bob, with the prefix \<^verbatim>\<open>!tts\<close>, queues \<^verbatim>\<open>hello\<close> in the
  voice of \<^verbatim>\<open>v 1\<close>.
\<close>

theorem unprefixed_voice_command_speaks_counterexample:
  "\<not> startswith (strip ''/v 1 hello'') (tts_command_prefix startup_state @ '' '')
   \<and> on_chat_message 0 (chat ''Bob'' ''/v 1 hello'') startup_state
       = Inr (startup_state\<lparr>message_queue := [said ''hello'' (Some ''Zira'') ''Bob'']\<rparr>)"
  by code_simp

lemma takeWhile_nonempty: "takeWhile P xs \<noteq> [] \<Longrightarrow> xs \<noteq> [] \<and> P (hd xs)"
  by (cases xs) (auto split: if_splits)

lemma number_command_is_voice_command:
  assumes "match_number_command ''v'' m = Some x"
  shows "matches_slash_v_number m \<and> startswith m ''/''"
proof -
  from assms have sw: "startswith m ''/v''"
    by (simp add: match_number_command_def split: if_splits)
  from assms have r1: "drop (Suc (Suc 0)) m \<noteq> [] \<and> is_space (hd (drop (Suc (Suc 0)) m))"
    and num: "takeWhile is_decimal (dropWhile is_space (drop (Suc (Suc 0)) m)) \<noteq> []"
    by (auto simp add: match_number_command_def Let_def split: if_splits)
  from takeWhile_nonempty[OF num] r1 sw have "matches_slash_v_number m"
    by (simp add: matches_slash_v_number_def Let_def numeral_2_eq_2)
  moreover from sw have "startswith m ''/''" by (cases m) simp_all
  ultimately show ?thesis by simp
qed

lemma process_voice_number:
  assumes "match_number_command (lstrip_slash (voice_toggle_command s)) m = None"
      and "match_number_command ''v'' m = Some (num, Some t)" and "t \<noteq> []" and "audio_manager s"
  shows "process_voice_command m username s =
     (case map_of (voice_commands s) (''v '' @ num) of
        Some voice_name \<Rightarrow>
          s\<lparr>message_queue := message_queue s @
              [\<lparr>utt_text = t, utt_voice = Some voice_name, utt_username = username\<rparr>]\<rparr>
      | None \<Rightarrow>
          s\<lparr>message_queue := message_queue s @
              [\<lparr>utt_text = t, utt_voice = None, utt_username = username\<rparr>],
            warnings := warnings s @ [NotConfigured num]\<rparr>)"
  using assms number_command_is_voice_command[OF assms(2)]
  by (simp add: process_voice_command_def voice_number_def group_text_def speak_if_text_def
        speak_with_voice_def speak_def warn_def split: option.splits)

text \<open>
  C1, amended. A message that is not taken by the blocked check, the auto-block scan or
  an admin command and that does not start with the TTS prefix and a space: when it
  matches no voice-command pattern it is ignored, the state is unchanged; when it
  matches one and private mode does not exclude the sender, it is handed to
  \<^verbatim>\<open>process_voice_command\<close>. In every case at most one message is added to the
  queue. Such a command does cause speech: for \<^verbatim>\<open>/v N text\<close> that is not the voice
  toggle command, with an audio backend, the text is queued under the name of the
  sender, with the voice of \<^verbatim>\<open>v N\<close> when that command is mapped, and with no voice
  and a warning in the log when it is not.
\<close>

theorem unprefixed_message:
  assumes "msg_username msg \<notin> set (blocked_listbox s)"
      and "auto_block_keyword msg s = None"
      and "admin_commands msg s = None"
      and "\<not> startswith (strip (msg_message msg)) (tts_command_prefix s @ '' '')"
  shows "(\<not> is_voice_command (strip (msg_message msg)) s \<longrightarrow> on_chat_message rnd msg s = Inr s)
       \<and> (is_voice_command (strip (msg_message msg)) s \<and> \<not> (private_mode_var s \<and> \<not> is_admin msg s)
            \<longrightarrow> on_chat_message rnd msg s
                  = Inr (process_voice_command (strip (msg_message msg)) (Some (msg_username msg)) s))
       \<and> (\<exists>s'. on_chat_message rnd msg s = Inr s' \<and> grows_by_at_most_one s s')
       \<and> (\<not> (private_mode_var s \<and> \<not> is_admin msg s) \<and> audio_manager s
            \<and> match_number_command (lstrip_slash (voice_toggle_command s)) (strip (msg_message msg)) = None
            \<and> match_number_command ''v'' (strip (msg_message msg)) = Some (num, Some t) \<and> t \<noteq> []
            \<longrightarrow> on_chat_message rnd msg s = Inr
                  (case map_of (voice_commands s) (''v '' @ num) of
                     Some voice_name \<Rightarrow>
                       s\<lparr>message_queue := message_queue s @
                           [\<lparr>utt_text = t, utt_voice = Some voice_name,
                             utt_username = Some (msg_username msg)\<rparr>]\<rparr>
                   | None \<Rightarrow>
                       s\<lparr>message_queue := message_queue s @
                           [\<lparr>utt_text = t, utt_voice = None,
                             utt_username = Some (msg_username msg)\<rparr>],
                         warnings := warnings s @ [NotConfigured num]\<rparr>))"
proof -
  let ?m = "strip (msg_message msg)"
  have run: "on_chat_message rnd msg s =
      (if private_mode_var s \<and> \<not> is_admin msg s then Inr s
       else if is_voice_command ?m s
       then Inr (process_voice_command ?m (Some (msg_username msg)) s) else Inr s)"
    using assms by (simp add: on_chat_message_def Let_def)
  have ignore: "\<not> is_voice_command ?m s \<longrightarrow> on_chat_message rnd msg s = Inr s"
    by (simp add: run)
  have hand: "is_voice_command ?m s \<and> \<not> (private_mode_var s \<and> \<not> is_admin msg s)
            \<longrightarrow> on_chat_message rnd msg s = Inr (process_voice_command ?m (Some (msg_username msg)) s)"
    by (simp add: run)
  have grow: "\<exists>s'. on_chat_message rnd msg s = Inr s' \<and> grows_by_at_most_one s s'"
    using process_voice_command_grows[of s ?m "Some (msg_username msg)"]
    by (auto simp add: run grows_by_at_most_one_def)
  have speaks: "\<not> (private_mode_var s \<and> \<not> is_admin msg s) \<and> audio_manager s
            \<and> match_number_command (lstrip_slash (voice_toggle_command s)) ?m = None
            \<and> match_number_command ''v'' ?m = Some (num, Some t) \<and> t \<noteq> []
            \<longrightarrow> on_chat_message rnd msg s = Inr
                  (case map_of (voice_commands s) (''v '' @ num) of
                     Some voice_name \<Rightarrow>
                       s\<lparr>message_queue := message_queue s @
                           [\<lparr>utt_text = t, utt_voice = Some voice_name,
                             utt_username = Some (msg_username msg)\<rparr>]\<rparr>
                   | None \<Rightarrow>
                       s\<lparr>message_queue := message_queue s @
                           [\<lparr>utt_text = t, utt_voice = None,
                             utt_username = Some (msg_username msg)\<rparr>],
                         warnings := warnings s @ [NotConfigured num]\<rparr>)"
  proof
    assume a: "\<not> (private_mode_var s \<and> \<not> is_admin msg s) \<and> audio_manager s
            \<and> match_number_command (lstrip_slash (voice_toggle_command s)) ?m = None
            \<and> match_number_command ''v'' ?m = Some (num, Some t) \<and> t \<noteq> []"
    then have vc: "is_voice_command ?m s"
      using number_command_is_voice_command[of ?m "(num, Some t)"]
      by (simp add: is_voice_command_def)
    have pv: "process_voice_command ?m (Some (msg_username msg)) s =
       (case map_of (voice_commands s) (''v '' @ num) of
          Some voice_name \<Rightarrow>
            s\<lparr>message_queue := message_queue s @
                [\<lparr>utt_text = t, utt_voice = Some voice_name, utt_username = Some (msg_username msg)\<rparr>]\<rparr>
        | None \<Rightarrow>
            s\<lparr>message_queue := message_queue s @
                [\<lparr>utt_text = t, utt_voice = None, utt_username = Some (msg_username msg)\<rparr>],
              warnings := warnings s @ [NotConfigured num]\<rparr>)"
      using a by (intro process_voice_number) simp_all
    have h: "on_chat_message rnd msg s = Inr (process_voice_command ?m (Some (msg_username msg)) s)"
      using a vc by (auto simp add: run)
    show "on_chat_message rnd msg s = Inr
                  (case map_of (voice_commands s) (''v '' @ num) of
                     Some voice_name \<Rightarrow>
                       s\<lparr>message_queue := message_queue s @
                           [\<lparr>utt_text = t, utt_voice = Some voice_name,
                             utt_username = Some (msg_username msg)\<rparr>]\<rparr>
                   | None \<Rightarrow>
                       s\<lparr>message_queue := message_queue s @
                           [\<lparr>utt_text = t, utt_voice = None,
                             utt_username = Some (msg_username msg)\<rparr>],
                         warnings := warnings s @ [NotConfigured num]\<rparr>)"
      unfolding h pv by (rule refl)
  qed
  from ignore hand grow speaks show ?thesis by (intro conjI)
qed

theorem unprefixed_message_witness:
  "msg_username (chat ''Bob'' ''hello everyone'') \<notin> set (blocked_listbox startup_state)
   \<and> auto_block_keyword (chat ''Bob'' ''hello everyone'') startup_state = None
   \<and> admin_commands (chat ''Bob'' ''hello everyone'') startup_state = None
   \<and> \<not> startswith (strip (msg_message (chat ''Bob'' ''hello everyone'')))
          (tts_command_prefix startup_state @ '' '')
   \<and> \<not> is_voice_command (strip (msg_message (chat ''Bob'' ''hello everyone''))) startup_state
   \<and> on_chat_message 0 (chat ''Bob'' ''hello everyone'') startup_state = Inr startup_state
   \<and> msg_username (chat ''Bob'' ''/v 1 hello'') \<notin> set (blocked_listbox startup_state)
   \<and> auto_block_keyword (chat ''Bob'' ''/v 1 hello'') startup_state = None
   \<and> admin_commands (chat ''Bob'' ''/v 1 hello'') startup_state = None
   \<and> \<not> startswith (strip (msg_message (chat ''Bob'' ''/v 1 hello'')))
          (tts_command_prefix startup_state @ '' '')
   \<and> is_voice_command (strip (msg_message (chat ''Bob'' ''/v 1 hello''))) startup_state
   \<and> \<not> (private_mode_var startup_state \<and> \<not> is_admin (chat ''Bob'' ''/v 1 hello'') startup_state)
   \<and> audio_manager startup_state
   \<and> match_number_command (lstrip_slash (voice_toggle_command startup_state))
        (strip (msg_message (chat ''Bob'' ''/v 1 hello''))) = None
   \<and> match_number_command ''v'' (strip (msg_message (chat ''Bob'' ''/v 1 hello'')))
        = Some (''1'', Some ''hello'')
   \<and> ''hello'' \<noteq> []
   \<and> on_chat_message 0 (chat ''Bob'' ''/v 1 hello'') startup_state
       = Inr (process_voice_command (strip (msg_message (chat ''Bob'' ''/v 1 hello'')))
                (Some (msg_username (chat ''Bob'' ''/v 1 hello''))) startup_state)
   \<and> on_chat_message 0 (chat ''Bob'' ''/v 1 hello'') startup_state
       = Inr (startup_state\<lparr>message_queue := [said ''hello'' (Some ''Zira'') ''Bob'']\<rparr>)
   \<and> msg_username (chat ''Bob'' ''/v 7 hello'') \<notin> set (blocked_listbox startup_state)
   \<and> auto_block_keyword (chat ''Bob'' ''/v 7 hello'') startup_state = None
   \<and> admin_commands (chat ''Bob'' ''/v 7 hello'') startup_state = None
   \<and> \<not> startswith (strip (msg_message (chat ''Bob'' ''/v 7 hello'')))
          (tts_command_prefix startup_state @ '' '')
   \<and> \<not> (private_mode_var startup_state \<and> \<not> is_admin (chat ''Bob'' ''/v 7 hello'') startup_state)
   \<and> match_number_command (lstrip_slash (voice_toggle_command startup_state))
        (strip (msg_message (chat ''Bob'' ''/v 7 hello''))) = None
   \<and> match_number_command ''v'' (strip (msg_message (chat ''Bob'' ''/v 7 hello'')))
        = Some (''7'', Some ''hello'')
   \<and> on_chat_message 0 (chat ''Bob'' ''/v 7 hello'') startup_state
       = Inr (startup_state\<lparr>message_queue := [said ''hello'' None ''Bob''],
                             warnings := [NotConfigured ''7'']\<rparr>)"
proof -
  let ?a = "chat ''Bob'' ''hello everyone''" and ?b = "chat ''Bob'' ''/v 1 hello''"
  let ?c = "chat ''Bob'' ''/v 7 hello''"
  have a1: "msg_username ?a \<notin> set (blocked_listbox startup_state)" by code_simp
  have a2: "auto_block_keyword ?a startup_state = None" by code_simp
  have a3: "admin_commands ?a startup_state = None" by code_simp
  have a4: "\<not> startswith (strip (msg_message ?a)) (tts_command_prefix startup_state @ '' '')"
    by code_simp
  have a5: "\<not> is_voice_command (strip (msg_message ?a)) startup_state" by code_simp
  have b1: "msg_username ?b \<notin> set (blocked_listbox startup_state)" by code_simp
  have b2: "auto_block_keyword ?b startup_state = None" by code_simp
  have b3: "admin_commands ?b startup_state = None" by code_simp
  have b4: "\<not> startswith (strip (msg_message ?b)) (tts_command_prefix startup_state @ '' '')"
    by code_simp
  have b5: "is_voice_command (strip (msg_message ?b)) startup_state" by code_simp
  have b6: "\<not> (private_mode_var startup_state \<and> \<not> is_admin ?b startup_state)" by code_simp
  have b7: "audio_manager startup_state" by code_simp
  have b8: "match_number_command (lstrip_slash (voice_toggle_command startup_state))
              (strip (msg_message ?b)) = None" by code_simp
  have b9: "match_number_command ''v'' (strip (msg_message ?b)) = Some (''1'', Some ''hello'')"
    by code_simp
  have b10: "''hello'' \<noteq> []" by simp
  have c1: "msg_username ?c \<notin> set (blocked_listbox startup_state)" by code_simp
  have c2: "auto_block_keyword ?c startup_state = None" by code_simp
  have c3: "admin_commands ?c startup_state = None" by code_simp
  have c4: "\<not> startswith (strip (msg_message ?c)) (tts_command_prefix startup_state @ '' '')"
    by code_simp
  have c6: "\<not> (private_mode_var startup_state \<and> \<not> is_admin ?c startup_state)" by code_simp
  have c8: "match_number_command (lstrip_slash (voice_toggle_command startup_state))
              (strip (msg_message ?c)) = None" by code_simp
  have c9: "match_number_command ''v'' (strip (msg_message ?c)) = Some (''7'', Some ''hello'')"
    by code_simp
  from a5 unprefixed_message[OF a1 a2 a3 a4, of 0]
  have ra: "on_chat_message 0 ?a startup_state = Inr startup_state" by blast
  from b5 b6 unprefixed_message[OF b1 b2 b3 b4, of 0]
  have rb: "on_chat_message 0 ?b startup_state
       = Inr (process_voice_command (strip (msg_message ?b)) (Some (msg_username ?b)) startup_state)"
    by blast
  from b6 b7 b8 b9 b10 unprefixed_message[OF b1 b2 b3 b4, where rnd = 0 and num = "''1''" and t = "''hello''"]
  have rb2: "on_chat_message 0 ?b startup_state = Inr
      (case map_of (voice_commands startup_state) (''v '' @ ''1'') of
         Some voice_name \<Rightarrow>
           startup_state\<lparr>message_queue := message_queue startup_state @
               [\<lparr>utt_text = ''hello'', utt_voice = Some voice_name,
                 utt_username = Some (msg_username ?b)\<rparr>]\<rparr>
       | None \<Rightarrow>
           startup_state\<lparr>message_queue := message_queue startup_state @
               [\<lparr>utt_text = ''hello'', utt_voice = None,
                 utt_username = Some (msg_username ?b)\<rparr>],
             warnings := warnings startup_state @ [NotConfigured ''1'']\<rparr>)"
    by blast
  have eb: "(case map_of (voice_commands startup_state) (''v '' @ ''1'') of
         Some voice_name \<Rightarrow>
           startup_state\<lparr>message_queue := message_queue startup_state @
               [\<lparr>utt_text = ''hello'', utt_voice = Some voice_name,
                 utt_username = Some (msg_username ?b)\<rparr>]\<rparr>
       | None \<Rightarrow>
           startup_state\<lparr>message_queue := message_queue startup_state @
               [\<lparr>utt_text = ''hello'', utt_voice = None,
                 utt_username = Some (msg_username ?b)\<rparr>],
             warnings := warnings startup_state @ [NotConfigured ''1'']\<rparr>)
      = startup_state\<lparr>message_queue := [said ''hello'' (Some ''Zira'') ''Bob'']\<rparr>"
    by code_simp
  from rb2 have rb3: "on_chat_message 0 ?b startup_state
       = Inr (startup_state\<lparr>message_queue := [said ''hello'' (Some ''Zira'') ''Bob'']\<rparr>)"
    unfolding eb .
  from c6 b7 c8 c9 b10 unprefixed_message[OF c1 c2 c3 c4, where rnd = 0 and num = "''7''" and t = "''hello''"]
  have rc2: "on_chat_message 0 ?c startup_state = Inr
      (case map_of (voice_commands startup_state) (''v '' @ ''7'') of
         Some voice_name \<Rightarrow>
           startup_state\<lparr>message_queue := message_queue startup_state @
               [\<lparr>utt_text = ''hello'', utt_voice = Some voice_name,
                 utt_username = Some (msg_username ?c)\<rparr>]\<rparr>
       | None \<Rightarrow>
           startup_state\<lparr>message_queue := message_queue startup_state @
               [\<lparr>utt_text = ''hello'', utt_voice = None,
                 utt_username = Some (msg_username ?c)\<rparr>],
             warnings := warnings startup_state @ [NotConfigured ''7'']\<rparr>)"
    by blast
  have ec: "(case map_of (voice_commands startup_state) (''v '' @ ''7'') of
         Some voice_name \<Rightarrow>
           startup_state\<lparr>message_queue := message_queue startup_state @
               [\<lparr>utt_text = ''hello'', utt_voice = Some voice_name,
                 utt_username = Some (msg_username ?c)\<rparr>]\<rparr>
       | None \<Rightarrow>
           startup_state\<lparr>message_queue := message_queue startup_state @
               [\<lparr>utt_text = ''hello'', utt_voice = None,
                 utt_username = Some (msg_username ?c)\<rparr>],
             warnings := warnings startup_state @ [NotConfigured ''7'']\<rparr>)
      = startup_state\<lparr>message_queue := [said ''hello'' None ''Bob''],
                        warnings := [NotConfigured ''7'']\<rparr>"
    by code_simp
  from rc2 have rc3: "on_chat_message 0 ?c startup_state
       = Inr (startup_state\<lparr>message_queue := [said ''hello'' None ''Bob''],
                             warnings := [NotConfigured ''7'']\<rparr>)"
    unfolding ec .
  from a1 a2 a3 a4 a5 ra b1 b2 b3 b4 b5 b6 b7 b8 b9 b10 rb rb3 c1 c2 c3 c4 c6 c8 c9 rc3
  show ?thesis by blast
qed

subsection \<open>The TTS stop command\<close>

text \<open>
  The claim that the TTS stop command of an admin clears the pending queue fails:
  the two queued messages are still queued after it.
\<close>

theorem tts_stop_keeps_queue_counterexample:
  "is_admin (chat ''Alice'' ''!TTS Stop'') queued_state
   \<and> on_chat_message 0 (chat ''Alice'' ''!TTS Stop'') queued_state
       = Inr (queued_state\<lparr>audio_calls := [Stop]\<rparr>)
   \<and> message_queue (queued_state\<lparr>audio_calls := [Stop]\<rparr>)
       = [said ''one'' None ''Bob'', said ''two'' None ''Carol'']"
  by code_simp

text \<open>
  C4, amended. The message \<^verbatim>\<open>{prefix} stop\<close>, compared without regard to case, from a
  user who is not an admin changes nothing. From an admin it calls the stop of the
  audio backend once (\<^verbatim>\<open>force_stop_tts\<close>), which halts the speech in flight; the
  pending queue and the marker of the current speaker are left as they are.
\<close>

theorem tts_stop_command:
  assumes "msg_username msg \<notin> set (blocked_listbox s)"
      and "auto_block_keyword msg s = None"
      and "strip (lower (strip (msg_message msg))) = lower (tts_command_prefix s @ '' stop'')"
  shows "(\<not> is_admin msg s \<longrightarrow> on_chat_message rnd msg s = Inr s)
       \<and> (is_admin msg s \<longrightarrow>
            on_chat_message rnd msg s = Inr (force_stop_tts s)
            \<and> force_stop_tts s = (if audio_manager s then s\<lparr>audio_calls := audio_calls s @ [Stop]\<rparr> else s)
            \<and> message_queue (force_stop_tts s) = message_queue s
            \<and> currently_speaking_user (force_stop_tts s) = currently_speaking_user s)"
  using assms
  by (simp add: on_chat_message_def admin_commands_def Let_def force_stop_tts_def audio_def)

theorem tts_stop_command_witness:
  "msg_username (chat ''Bob'' ''!tts stop'') \<notin> set (blocked_listbox queued_state)
   \<and> auto_block_keyword (chat ''Bob'' ''!tts stop'') queued_state = None
   \<and> strip (lower (strip (msg_message (chat ''Bob'' ''!tts stop''))))
       = lower (tts_command_prefix queued_state @ '' stop'')
   \<and> \<not> is_admin (chat ''Bob'' ''!tts stop'') queued_state
   \<and> on_chat_message 0 (chat ''Bob'' ''!tts stop'') queued_state = Inr queued_state
   \<and> msg_username (chat ''Alice'' ''!TTS Stop'') \<notin> set (blocked_listbox queued_state)
   \<and> auto_block_keyword (chat ''Alice'' ''!TTS Stop'') queued_state = None
   \<and> strip (lower (strip (msg_message (chat ''Alice'' ''!TTS Stop''))))
       = lower (tts_command_prefix queued_state @ '' stop'')
   \<and> is_admin (chat ''Alice'' ''!TTS Stop'') queued_state
   \<and> on_chat_message 0 (chat ''Alice'' ''!TTS Stop'') queued_state = Inr (force_stop_tts queued_state)
   \<and> message_queue (force_stop_tts queued_state) = message_queue queued_state"
proof -
  let ?a = "chat ''Bob'' ''!tts stop''" and ?b = "chat ''Alice'' ''!TTS Stop''"
  have a1: "msg_username ?a \<notin> set (blocked_listbox queued_state)" by code_simp
  have a2: "auto_block_keyword ?a queued_state = None" by code_simp
  have a3: "strip (lower (strip (msg_message ?a))) = lower (tts_command_prefix queued_state @ '' stop'')"
    by code_simp
  have a4: "\<not> is_admin ?a queued_state" by code_simp
  have b1: "msg_username ?b \<notin> set (blocked_listbox queued_state)" by code_simp
  have b2: "auto_block_keyword ?b queued_state = None" by code_simp
  have b3: "strip (lower (strip (msg_message ?b))) = lower (tts_command_prefix queued_state @ '' stop'')"
    by code_simp
  have b4: "is_admin ?b queued_state" by code_simp
  from a1 a2 a3 a4 b1 b2 b3 b4
    tts_stop_command[OF a1 a2 a3, of 0] tts_stop_command[OF b1 b2 b3, of 0]
  show ?thesis by blast
qed

subsection \<open>The auto-block scan\<close>

lemma announcement_text_clear [simp]:
  "get_announcement_text t u (clear_user_from_queue v b s) = get_announcement_text t u s"
  by (simp add: get_announcement_text_def clear_user_from_queue_def audio_def Let_def)

lemma announcement_clear [simp]:
  "announcement t (clear_user_from_queue v b s) = announcement t s"
  by (simp add: announcement_def clear_user_from_queue_def audio_def Let_def)

lemma blocked_put_announcement [simp]:
  "blocked_listbox (put_announcement_first a s) = blocked_listbox s"
  by (simp add: put_announcement_first_def split: option.splits)

text \<open>
  The claim that every message with a keyword blocks its sender and puts one
  announcement in front fails twice: with the auto-block switch off the message passes
  the scan and no one is blocked, and with the announcement of the auto-block switched
  off the sender is blocked and no announcement is queued.
\<close>

theorem auto_block_gates_counterexample:
  "msg_username (chat ''Bob'' ''you BADWORD'') \<notin> set (blocked_listbox no_auto_block_state)
   \<and> keyword_matches (lower (msg_message (chat ''Bob'' ''you BADWORD''))) ''badword''
   \<and> ''badword'' \<in> set (auto_block_keywords no_auto_block_state)
   \<and> on_chat_message 0 (chat ''Bob'' ''you BADWORD'') no_auto_block_state = Inr no_auto_block_state
   \<and> ''badword'' \<in> set (auto_block_keywords no_announcement_state)
   \<and> on_chat_message 0 (chat ''Bob'' ''you BADWORD'') no_announcement_state
       = Inr (no_announcement_state\<lparr>blocked_listbox := [''Bob''],
                                     message_queue := [said ''two'' None ''Carol'']\<rparr>)"
  by code_simp

text \<open>
  C5, amended. When auto-block is enabled, a message of a user who is not blocked is
  scanned before any command is parsed: the first keyword of the list that is not empty
  and occurs in the message, both in lower case, decides. On a match the sender goes
  through \<^verbatim>\<open>clear_user_from_queue\<close> with \<^verbatim>\<open>add_to_blocked=True\<close>, the path of the
  manual block, and, when the announcement of the auto-block is enabled and has a text,
  exactly one announcement is put in front of the messages that are left in the queue.
\<close>

theorem auto_block_scan:
  assumes "msg_username msg \<notin> set (blocked_listbox s)"
      and "auto_block_var s"
      and "find (keyword_matches (lower (msg_message msg))) (auto_block_keywords s) = Some k"
  shows "on_chat_message rnd msg s = Inr (auto_block msg s)
       \<and> auto_block msg s
           = put_announcement_first (get_announcement_text ''AUTOBLOCK'' (msg_username msg) s)
               (clear_user_from_queue (msg_username msg) True s)
       \<and> (msg_username msg \<noteq> [] \<longrightarrow>
            msg_username msg \<in> set (blocked_listbox (auto_block msg s))
            \<and> (\<forall>a. get_announcement_text ''AUTOBLOCK'' (msg_username msg) s = Some a \<longrightarrow>
                  message_queue (auto_block msg s)
                    = announcement a s
                      # filter (\<lambda>m. utt_username m \<noteq> Some (msg_username msg)) (message_queue s)))"
proof -
  have run: "on_chat_message rnd msg s = Inr (auto_block msg s)"
    using assms by (simp add: on_chat_message_def auto_block_keyword_def)
  have path: "auto_block msg s
           = put_announcement_first (get_announcement_text ''AUTOBLOCK'' (msg_username msg) s)
               (clear_user_from_queue (msg_username msg) True s)"
    by (simp add: auto_block_def Let_def)
  have eff: "msg_username msg \<noteq> [] \<longrightarrow>
            msg_username msg \<in> set (blocked_listbox (auto_block msg s))
            \<and> (\<forall>a. get_announcement_text ''AUTOBLOCK'' (msg_username msg) s = Some a \<longrightarrow>
                  message_queue (auto_block msg s)
                    = announcement a s
                      # filter (\<lambda>m. utt_username m \<noteq> Some (msg_username msg)) (message_queue s))"
    by (simp add: path clear_user_blocked clear_user_queue put_announcement_first_def
          split: option.splits)
  from run path eff show ?thesis by (intro conjI)
qed

theorem auto_block_scan_witness:
  "msg_username (chat ''Bob'' ''you BADWORD'') \<notin> set (blocked_listbox queued_state)
   \<and> auto_block_var queued_state
   \<and> find (keyword_matches (lower (msg_message (chat ''Bob'' ''you BADWORD''))))
        (auto_block_keywords queued_state) = Some ''badword''
   \<and> msg_username (chat ''Bob'' ''you BADWORD'') \<noteq> []
   \<and> get_announcement_text ''AUTOBLOCK'' (msg_username (chat ''Bob'' ''you BADWORD'')) queued_state
       = Some ''Bob auto blocked''
   \<and> on_chat_message 0 (chat ''Bob'' ''you BADWORD'') queued_state
       = Inr (auto_block (chat ''Bob'' ''you BADWORD'') queued_state)
   \<and> msg_username (chat ''Bob'' ''you BADWORD'')
       \<in> set (blocked_listbox (auto_block (chat ''Bob'' ''you BADWORD'') queued_state))
   \<and> message_queue (auto_block (chat ''Bob'' ''you BADWORD'') queued_state)
       = announcement ''Bob auto blocked'' queued_state
         # filter (\<lambda>m. utt_username m \<noteq> Some (msg_username (chat ''Bob'' ''you BADWORD'')))
             (message_queue queued_state)"
proof -
  let ?m = "chat ''Bob'' ''you BADWORD''"
  have h1: "msg_username ?m \<notin> set (blocked_listbox queued_state)" by code_simp
  have h2: "auto_block_var queued_state" by code_simp
  have h3: "find (keyword_matches (lower (msg_message ?m))) (auto_block_keywords queued_state)
              = Some ''badword''" by code_simp
  have h4: "msg_username ?m \<noteq> []" by code_simp
  have h5: "get_announcement_text ''AUTOBLOCK'' (msg_username ?m) queued_state
              = Some ''Bob auto blocked''" by code_simp
  from h1 h2 h3 h4 h5 auto_block_scan[OF h1 h2 h3, of 0]
  show ?thesis by blast
qed

subsection \<open>Waiting for the end of the speech\<close>

lemma wait_uneventful:
  "uneventful polls msg i k s \<Longrightarrow>
   wait_for_speech (k + n) i polls msg s = wait_for_speech n (i + k) polls msg (drift polls i k s)"
  by (induction k arbitrary: i s) (simp_all add: Let_def)

lemma drift_Suc_end:
  "drift polls i (Suc k) s = interference (polls (i + k)) (drift polls i k s)"
  by (induction k arbitrary: i s) simp_all

lemma stuck_uneventful:
  "\<not> username_blocked (utt_username msg) s \<Longrightarrow> currently_speaking_user s = utt_username msg \<Longrightarrow>
   uneventful stuck_polls msg i k s"
  by (induction k arbitrary: i) (simp_all add: stuck_polls_def)

lemma stuck_drift: "drift stuck_polls i k s = s"
  by (induction k arbitrary: i) (simp_all add: stuck_polls_def)

lemma wait_stuck:
  "\<not> username_blocked (utt_username msg) s \<Longrightarrow> currently_speaking_user s = utt_username msg \<Longrightarrow>
   wait_for_speech k 0 stuck_polls msg s = s"
  using wait_uneventful[of stuck_polls msg 0 k s 0] stuck_uneventful[of msg s 0 k]
  by (simp add: stuck_drift)

text \<open>
  The claim that the worker forces a backend stop when the ceiling of the wait is hit
  fails: with a backend that never stops speaking, the worker makes the two calls that
  start the speech, waits out all its turns and goes on, without a call to stop.
\<close>

theorem no_stop_at_ceiling_counterexample:
  "process_speech_queue 0 stuck_polls stuck_state
     = startup_state\<lparr>audio_calls := [ApplyVoice ''Sam'', Speak ''long'']\<rparr>"
proof -
  let ?m = "said ''long'' (Some ''Sam'') ''Bob''"
  let ?s = "startup_state\<lparr>currently_speaking_user := Some ''Bob'',
                          audio_calls := [ApplyVoice ''Sam'', Speak ''long'']\<rparr>"
  have w: "wait_for_speech max_polls 0 stuck_polls ?m ?s = ?s"
    by (rule wait_stuck) (simp_all add: username_blocked_def said_def startup_state_def)
  have v: "worker_voice 0 ?m (startup_state\<lparr>currently_speaking_user := Some ''Bob''\<rparr>)
             = (Some ''Sam'', startup_state\<lparr>currently_speaking_user := Some ''Bob''\<rparr>)"
    by (simp add: worker_voice_def said_def truthy_def)
  have d: "dispatch ?m (startup_state\<lparr>currently_speaking_user := Some ''Bob'',
                                        audio_calls := [ApplyVoice ''Sam'']\<rparr>) = (False, ?s)"
    by (simp add: dispatch_def said_def truthy_def audio_def startup_state_def Let_def dectalk_tag_def)
  have a: "apply_selected (Some ''Sam'') (startup_state\<lparr>currently_speaking_user := Some ''Bob''\<rparr>)
             = startup_state\<lparr>currently_speaking_user := Some ''Bob'', audio_calls := [ApplyVoice ''Sam'']\<rparr>"
    by (simp add: apply_selected_def apply_voice_def audio_def startup_state_def)
  have sp: "speak_message stuck_polls ?m
              (startup_state\<lparr>currently_speaking_user := Some ''Bob'', audio_calls := [ApplyVoice ''Sam'']\<rparr>) = ?s"
    by (simp add: speak_message_def d w) (simp add: startup_state_def)
  have c: "clear_current_speaker ?m ?s = startup_state\<lparr>audio_calls := [ApplyVoice ''Sam'', Speak ''long'']\<rparr>"
    by (simp add: clear_current_speaker_def said_def startup_state_def)
  have q: "message_queue stuck_state = [?m]" by (simp add: stuck_state_def)
  have b: "\<not> username_blocked (Some ''Bob'') (stuck_state\<lparr>message_queue := []\<rparr>)"
    by (simp add: username_blocked_def stuck_state_def startup_state_def)
  have e: "stuck_state\<lparr>message_queue := [], currently_speaking_user := Some ''Bob''\<rparr>
             = startup_state\<lparr>currently_speaking_user := Some ''Bob''\<rparr>"
    by (simp add: stuck_state_def startup_state_def)
  have u: "utt_username ?m = Some ''Bob''" by (simp add: said_def)
  show ?thesis
    by (simp add: process_speech_queue_def q b u e v a sp c Let_def del: One_nat_def)
qed

text \<open>
  C9, amended. For a message spoken through the SAPI5 path the worker polls
  \<^verbatim>\<open>is_speaking()\<close> once per turn, with a sleep of 50 ms, for at most \<open>max_polls\<close>
  turns (the 60 seconds), and then goes on without a call to the backend. After \<open>k\<close>
  uneventful turns: a poll that answers that the speech is over ends the wait; a user
  found blocked after the sleep makes the worker call the backend stop and purge the
  queue of the user; a marker found changed after the sleep makes the worker call the
  backend stop; in both cases the wait ends at once. For a message spoken through the
  synchronous DECtalk path there is no wait.
\<close>

theorem wait_for_speech_outcomes:
  assumes "uneventful polls msg 0 k s" and "k \<le> max_polls"
  shows "(k = max_polls \<longrightarrow> wait_for_speech max_polls 0 polls msg s = drift polls 0 k s)
     \<and> (k < max_polls \<and> \<not> is_speaking (polls k) \<longrightarrow>
          wait_for_speech max_polls 0 polls msg s = drift polls 0 k s)
     \<and> (k < max_polls \<and> is_speaking (polls k)
          \<and> username_blocked (utt_username msg) (drift polls 0 (Suc k) s) \<longrightarrow>
          wait_for_speech max_polls 0 polls msg s
            = clear_user_from_queue (the (utt_username msg)) False
                (audio [StopAllSpeech] (drift polls 0 (Suc k) s)))
     \<and> (k < max_polls \<and> is_speaking (polls k)
          \<and> \<not> username_blocked (utt_username msg) (drift polls 0 (Suc k) s)
          \<and> currently_speaking_user (drift polls 0 (Suc k) s) \<noteq> utt_username msg \<longrightarrow>
          wait_for_speech max_polls 0 polls msg s = audio [StopAllSpeech] (drift polls 0 (Suc k) s))
     \<and> (audio_manager s \<and> fst (dispatch msg s) \<longrightarrow>
          speak_message polls msg s = snd (dispatch msg s))"
proof -
  obtain n where n: "max_polls = k + n" using assms(2) by (auto simp add: le_iff_add)
  have go: "wait_for_speech max_polls 0 polls msg s = wait_for_speech n k polls msg (drift polls 0 k s)"
    using wait_uneventful[OF assms(1), of n] by (simp add: n)
  have ceiling: "k = max_polls \<longrightarrow> wait_for_speech max_polls 0 polls msg s = drift polls 0 k s"
  proof
    assume "k = max_polls"
    then have "n = 0" using n by simp
    then show "wait_for_speech max_polls 0 polls msg s = drift polls 0 k s"
      using go by simp
  qed
  have step: "k < max_polls \<Longrightarrow>
      wait_for_speech max_polls 0 polls msg s =
        (if \<not> is_speaking (polls k) then drift polls 0 k s
         else if username_blocked (utt_username msg) (drift polls 0 (Suc k) s) then
           clear_user_from_queue (the (utt_username msg)) False
             (audio [StopAllSpeech] (drift polls 0 (Suc k) s))
         else if currently_speaking_user (drift polls 0 (Suc k) s) \<noteq> utt_username msg then
           audio [StopAllSpeech] (drift polls 0 (Suc k) s)
         else wait_for_speech (n - 1) (Suc k) polls msg (drift polls 0 (Suc k) s))"
  proof -
    assume "k < max_polls"
    then obtain n' where n': "n = Suc n'" using n by (cases n) auto
    show ?thesis
      unfolding go n' drift_Suc_end by (simp add: Let_def)
  qed
  have special: "audio_manager s \<and> fst (dispatch msg s) \<longrightarrow>
          speak_message polls msg s = snd (dispatch msg s)"
    by (simp add: speak_message_def split: prod.splits)
  from ceiling step special show ?thesis by simp
qed

theorem wait_for_speech_outcomes_witness:
  "uneventful stuck_polls (said ''long'' (Some ''Sam'') ''Bob'') 0 max_polls speaking_state
   \<and> max_polls \<le> max_polls
   \<and> wait_for_speech max_polls 0 stuck_polls (said ''long'' (Some ''Sam'') ''Bob'') speaking_state
       = drift stuck_polls 0 max_polls speaking_state
   \<and> uneventful done_polls (said ''long'' (Some ''Sam'') ''Bob'') 0 3 speaking_state
   \<and> 3 < max_polls \<and> \<not> is_speaking (done_polls 3)
   \<and> wait_for_speech max_polls 0 done_polls (said ''long'' (Some ''Sam'') ''Bob'') speaking_state
       = drift done_polls 0 3 speaking_state
   \<and> uneventful block_polls (said ''long'' (Some ''Sam'') ''Bob'') 0 2 speaking_state
   \<and> 2 < max_polls \<and> is_speaking (block_polls 2)
   \<and> username_blocked (utt_username (said ''long'' (Some ''Sam'') ''Bob''))
        (drift block_polls 0 (Suc 2) speaking_state)
   \<and> wait_for_speech max_polls 0 block_polls (said ''long'' (Some ''Sam'') ''Bob'') speaking_state
       = clear_user_from_queue (the (utt_username (said ''long'' (Some ''Sam'') ''Bob''))) False
           (audio [StopAllSpeech] (drift block_polls 0 (Suc 2) speaking_state))
   \<and> uneventful interrupt_polls (said ''long'' (Some ''Sam'') ''Bob'') 0 1 speaking_state
   \<and> 1 < max_polls \<and> is_speaking (interrupt_polls 1)
   \<and> \<not> username_blocked (utt_username (said ''long'' (Some ''Sam'') ''Bob''))
          (drift interrupt_polls 0 (Suc 1) speaking_state)
   \<and> currently_speaking_user (drift interrupt_polls 0 (Suc 1) speaking_state)
       \<noteq> utt_username (said ''long'' (Some ''Sam'') ''Bob'')
   \<and> wait_for_speech max_polls 0 interrupt_polls (said ''long'' (Some ''Sam'') ''Bob'') speaking_state
       = audio [StopAllSpeech] (drift interrupt_polls 0 (Suc 1) speaking_state)
   \<and> audio_manager speaking_state
   \<and> fst (dispatch (said ''hi'' (Some ''[DECtalk] Betty'') ''Bob'') speaking_state)
   \<and> speak_message stuck_polls (said ''hi'' (Some ''[DECtalk] Betty'') ''Bob'') speaking_state
       = snd (dispatch (said ''hi'' (Some ''[DECtalk] Betty'') ''Bob'') speaking_state)"
proof -
  let ?m = "said ''long'' (Some ''Sam'') ''Bob''"
  let ?d = "said ''hi'' (Some ''[DECtalk] Betty'') ''Bob''"
  have nb: "\<not> username_blocked (utt_username ?m) speaking_state" by code_simp
  have cs: "currently_speaking_user speaking_state = utt_username ?m" by code_simp
  have u0: "uneventful stuck_polls ?m 0 max_polls speaking_state"
    using nb cs by (rule stuck_uneventful)
  have l0: "max_polls \<le> max_polls" by simp
  have u1: "uneventful done_polls ?m 0 3 speaking_state" by code_simp
  have l1: "3 \<le> max_polls" by code_simp
  have c1: "3 < max_polls \<and> \<not> is_speaking (done_polls 3)" by code_simp
  have u2: "uneventful block_polls ?m 0 2 speaking_state" by code_simp
  have l2: "2 \<le> max_polls" by code_simp
  have c2: "2 < max_polls \<and> is_speaking (block_polls 2)
            \<and> username_blocked (utt_username ?m) (drift block_polls 0 (Suc 2) speaking_state)"
    by code_simp
  have u3: "uneventful interrupt_polls ?m 0 1 speaking_state" by code_simp
  have l3: "1 \<le> max_polls" by code_simp
  have c3: "1 < max_polls \<and> is_speaking (interrupt_polls 1)
            \<and> \<not> username_blocked (utt_username ?m) (drift interrupt_polls 0 (Suc 1) speaking_state)
            \<and> currently_speaking_user (drift interrupt_polls 0 (Suc 1) speaking_state)
                \<noteq> utt_username ?m"
    by code_simp
  have c4: "audio_manager speaking_state \<and> fst (dispatch ?d speaking_state)" by code_simp
  have u4: "uneventful stuck_polls ?d 0 0 speaking_state" by simp
  have l4: "0 \<le> max_polls" by simp
  from wait_for_speech_outcomes[OF u0 l0]
  have r0: "wait_for_speech max_polls 0 stuck_polls ?m speaking_state
              = drift stuck_polls 0 max_polls speaking_state"
    by blast
  from c1 wait_for_speech_outcomes[OF u1 l1]
  have r1: "wait_for_speech max_polls 0 done_polls ?m speaking_state
              = drift done_polls 0 3 speaking_state"
    by blast
  from c2 wait_for_speech_outcomes[OF u2 l2]
  have r2: "wait_for_speech max_polls 0 block_polls ?m speaking_state
              = clear_user_from_queue (the (utt_username ?m)) False
                  (audio [StopAllSpeech] (drift block_polls 0 (Suc 2) speaking_state))"
    by blast
  from c3 wait_for_speech_outcomes[OF u3 l3]
  have r3: "wait_for_speech max_polls 0 interrupt_polls ?m speaking_state
              = audio [StopAllSpeech] (drift interrupt_polls 0 (Suc 1) speaking_state)"
    by blast
  from c4 wait_for_speech_outcomes[OF u4 l4]
  have r4: "speak_message stuck_polls ?d speaking_state = snd (dispatch ?d speaking_state)"
    by blast
  from u0 l0 r0 u1 c1 r1 u2 c2 r2 u3 c3 r3 c4 r4
  show ?thesis by blast
qed

subsection \<open>The admin commands\<close>

text \<open>
  With \<^verbatim>\<open>last_speaker\<close> set, the target of \<^verbatim>\<open>!block\<close> is the user who is speaking,
  else the last speaker, and never the admin who sent the command; \<^verbatim>\<open>!block clear\<close>
  removes the last entry of the blocked list, which is where a block puts a new one.
\<close>

lemma block_command_target:
  assumes "is_admin msg s" and "last_speaker s = Some speaker"
  shows "block_command msg s =
     (let user_to_block = (case currently_speaking_user s of
                             None \<Rightarrow> speaker
                           | Some c \<Rightarrow> if c = [] then speaker else c)
      in if user_to_block \<noteq> [] \<and> user_to_block \<noteq> msg_username msg then
           Inr (put_announcement_first (get_announcement_text ''BLOCK ADD'' user_to_block s)
                  (clear_user_from_queue user_to_block True s))
         else Inr s)"
  using assms
  by (simp add: block_command_def truthy_def Let_def split: option.splits)

lemma block_clear_removes_last:
  "blocked_listbox (block_clear_command s) = butlast (blocked_listbox s)"
  by (simp add: block_clear_command_def put_announcement_first_def Let_def split: option.splits)

lemma block_then_clear:
  assumes "u \<noteq> []" and "u \<notin> set (blocked_listbox s)"
  shows "blocked_listbox (block_clear_command (clear_user_from_queue u True s)) = blocked_listbox s"
  using assms
  by (simp add: block_clear_removes_last clear_user_from_queue_def audio_def Let_def)

text \<open>
  C3. The rules are tried in the order of the claim, but a message that matches rule
  4 is processed by a later rule when its sender is not an admin: \<^verbatim>\<open>!admin add\<close> and
  \<^verbatim>\<open>!block clear\<close> return only inside the branch of an admin, where \<^verbatim>\<open>!stop\<close> and
  \<^verbatim>\<open>!block\<close> return for every sender. With the TTS prefix \<^verbatim>\<open>!admin\<close>, the message
  \<^verbatim>\<open>!admin add\<close> of Bob, who is not an admin, is taken by no admin command and is then
  spoken as the TTS text \<^verbatim>\<open>add\<close>.
\<close>

theorem admin_add_falls_through:
  "\<not> is_admin (chat ''Bob'' ''!admin add'') admin_prefix_state
   \<and> strip (lower (strip (msg_message (chat ''Bob'' ''!admin add'')))) = ''!admin add''
   \<and> admin_commands (chat ''Bob'' ''!admin add'') admin_prefix_state = None
   \<and> on_chat_message 0 (chat ''Bob'' ''!admin add'') admin_prefix_state
       = Inr (admin_prefix_state
                \<lparr>message_queue := [said ''add'' None ''Bob''],
                 last_speaker := Some ''Bob'',
                 audio_calls := [ApplyDefaultVoice]\<rparr>)"
  by code_simp

text \<open>
  C7. Bob speaks through a voice command without the TTS prefix, which does not set
  \<^verbatim>\<open>last_speaker\<close>. While Bob is the current speaker the admin Alice sends
  \<^verbatim>\<open>!block\<close>: the handler reads \<^verbatim>\<open>self.last_speaker\<close> for its log line before it
  resolves the target, the attribute does not exist, and the call ends with an
  AttributeError. Bob, the user currently speaking, is not blocked.
\<close>

theorem block_of_current_speaker_raises:
  "on_chat_message 0 (chat ''Bob'' ''/v 1 hello'') startup_state
     = Inr (startup_state\<lparr>message_queue := [said ''hello'' (Some ''Zira'') ''Bob'']\<rparr>)
   \<and> last_speaker (startup_state\<lparr>message_queue := [said ''hello'' (Some ''Zira'') ''Bob'']\<rparr>) = None
   \<and> is_admin (chat ''Alice'' ''!block'') (startup_state\<lparr>currently_speaking_user := Some ''Bob''\<rparr>)
   \<and> on_chat_message 0 (chat ''Alice'' ''!block'')
         (startup_state\<lparr>currently_speaking_user := Some ''Bob''\<rparr>)
       = Inl (AttributeError ''last_speaker'')"
  by code_simp

text \<open>
  C8. Right after start-up no one speaks and no one has used TTS. The admin Alice sends
  \<^verbatim>\<open>!block\<close>, or \<^verbatim>\<open>!admin add\<close>: there is no valid target, and instead of doing
  nothing the handler raises an AttributeError, because \<^verbatim>\<open>self.last_speaker\<close> was
  never set.
\<close>

theorem block_without_target_raises:
  "is_admin (chat ''Alice'' ''!block'') startup_state
   \<and> currently_speaking_user startup_state = None
   \<and> last_speaker startup_state = None
   \<and> on_chat_message 0 (chat ''Alice'' ''!block'') startup_state
       = Inl (AttributeError ''last_speaker'')
   \<and> on_chat_message 0 (chat ''Alice'' ''!admin add'') startup_state
       = Inl (AttributeError ''last_speaker'')"
  by code_simp

end
